theory Spec2Isabelle
  imports Complex_Main "HOL-Library.Multiset" "HOL-Library.Log_Nat"
begin

section \<open>Python values, strings and exceptions\<close>

text \<open>
  The program is Python. A \<^verbatim>\<open>str\<close> is a sequence of characters; the model is a list
  over a character type \<open>'c\<close>. Two instances are used:
  \<^item> \<open>char\<close> (Isabelle's \<open>string\<close>), the UTF-8 bytes of the text, wherever the code only
    concatenates strings or searches them for ASCII substrings (both agree with Python's
    code-point semantics on UTF-8 text); where such text is split at whitespace or put in
    upper case, whitespace and letters are those of ASCII;
  \<^item> \<open>nat\<close>, the Unicode code points, in \<open>validate_model_name\<close>, whose \<^verbatim>\<open>strip()\<close>
    depends on which code points are whitespace.
  Values whose Python type the code tests with \<^verbatim>\<open>isinstance\<close> are values of \<open>pyval\<close>.
\<close>

datatype 'c pyval =
    PyNone
  | PyBool bool
  | PyInt int
  | PyStr "'c list"
  | PyList "'c pyval list"

text \<open>
  Exceptions, as far as the code's handlers tell them apart. \<open>ConfigurationError\<close> and
  \<open>DiagnosticError\<close> are the classes of \<^verbatim>\<open>exceptions.py\<close> with their arguments
  \<^verbatim>\<open>message\<close> and \<^verbatim>\<open>suggestion\<close>; a \<open>DiagnosticError\<close> also carries its
  \<^verbatim>\<open>__cause__\<close> (set by \<^verbatim>\<open>raise ... from\<close>). \<open>OSError\<close> stands for \<^verbatim>\<open>OSError\<close> and
  its subclasses (\<^verbatim>\<open>ConnectionError\<close>, \<^verbatim>\<open>URLError\<close>, ...), \<open>OtherException\<close> for any
  other instance of \<^verbatim>\<open>Exception\<close>, and \<open>NonException\<close> for a \<^verbatim>\<open>BaseException\<close> that
  is not an \<^verbatim>\<open>Exception\<close> (\<^verbatim>\<open>KeyboardInterrupt\<close>, \<^verbatim>\<open>SystemExit\<close>).
  \<open>TimeoutError\<close> is the builtin class, a subclass of \<^verbatim>\<open>OSError\<close>, which
  \<^verbatim>\<open>as_completed\<close> raises when its timeout expires. The string argument of the builtin
  classes is \<^verbatim>\<open>str(e)\<close>.
\<close>

datatype 'c py_exn =
    ConfigurationError "'c list" "'c list"
  | DiagnosticError "'c list" "'c list" "'c py_exn option"
  | RuntimeError "'c list"
  | ValueError "'c list"
  | ImportError "'c list"
  | IndexError "'c list"
  | OSError "'c list"
  | TimeoutError
  | OtherException "'c list"
  | NonException "'c list"

type_synonym exn = "char py_exn"

text \<open>\<^verbatim>\<open>isinstance(e, Exception)\<close>: what an \<^verbatim>\<open>except Exception\<close> clause catches.\<close>

fun is_Exception :: "'c py_exn \<Rightarrow> bool" where
  "is_Exception (NonException s) = False"
| "is_Exception e = True"

subsection \<open>Substring test: Python's \<^verbatim>\<open>pattern in arg\<close>\<close>

fun starts_with :: "'c list \<Rightarrow> 'c list \<Rightarrow> bool" where
  "starts_with [] s = True"
| "starts_with (p # ps) [] = False"
| "starts_with (p # ps) (c # cs) = (p = c \<and> starts_with ps cs)"

fun py_in :: "'c list \<Rightarrow> 'c list \<Rightarrow> bool" where
  "py_in p [] = (p = [])"
| "py_in p (c # cs) = (starts_with p (c # cs) \<or> py_in p cs)"

subsection \<open>Text of numbers and of exceptions\<close>

text \<open>Decimal text of an integer, as an f-string or \<^verbatim>\<open>str\<close> prints it.\<close>

definition digit_char :: "nat \<Rightarrow> char" where
  "digit_char d = char_of (48 + d)"

fun str_nat :: "nat \<Rightarrow> string" where
  "str_nat n = (if n < 10 then [digit_char n] else str_nat (n div 10) @ [digit_char (n mod 10)])"

definition str_int :: "int \<Rightarrow> string" where
  "str_int i = (if i < 0 then CHR ''-'' # str_nat (nat (- i)) else str_nat (nat i))"

text \<open>
  \<^verbatim>\<open>str(e)\<close>. \<^verbatim>\<open>MLEnvDoctorError.__str__\<close> appends the suggestion, when there is one,
  after a line break, the light-bulb sign (U+1F4A1, four bytes of UTF-8) and
  \<^verbatim>\<open>Suggestion:\<close>; a builtin exception prints its message.
\<close>

definition suggestion_mark :: string where
  "suggestion_mark = [CHR 0x0A, CHR 0xF0, CHR 0x9F, CHR 0x92, CHR 0xA1] @ '' Suggestion: ''"

definition mlenv_str :: "string \<Rightarrow> string \<Rightarrow> string" where
  "mlenv_str message suggestion =
     (if suggestion \<noteq> [] then message @ suggestion_mark @ suggestion else message)"

fun py_str :: "exn \<Rightarrow> string" where
  "py_str (ConfigurationError message suggestion) = mlenv_str message suggestion"
| "py_str (DiagnosticError message suggestion cause) = mlenv_str message suggestion"
| "py_str (RuntimeError s) = s"
| "py_str (ValueError s) = s"
| "py_str (ImportError s) = s"
| "py_str (IndexError s) = s"
| "py_str (OSError s) = s"
| "py_str TimeoutError = []"
| "py_str (OtherException s) = s"
| "py_str (NonException s) = s"

section \<open>validators.py\<close>

subsection \<open>\<^verbatim>\<open>sanitize_command\<close>\<close>

definition dangerous_patterns :: "string list" where
  "dangerous_patterns = ['';'', ''&&'', ''||'', ''`'', ''$('', ''<'', ''>'', ''|'']"

text \<open>
  The inner \<^verbatim>\<open>for pattern in dangerous_patterns\<close> loop: the first pattern that occurs
  in the argument, if any (the loop raises at the first hit).
\<close>

fun first_dangerous :: "string list \<Rightarrow> string \<Rightarrow> string option" where
  "first_dangerous [] arg = None"
| "first_dangerous (pattern # rest) arg =
     (if py_in pattern arg then Some pattern else first_dangerous rest arg)"

text \<open>
  The outer \<^verbatim>\<open>for arg in cmd\<close> loop, with the list \<^verbatim>\<open>sanitized\<close> built so far.
\<close>

fun sanitize_args :: "char pyval list \<Rightarrow> string list \<Rightarrow> exn + string list" where
  "sanitize_args [] sanitized = Inr sanitized"
| "sanitize_args (PyStr arg # rest) sanitized =
     (case first_dangerous dangerous_patterns arg of
        Some pattern \<Rightarrow>
          Inl (ConfigurationError
                (''Dangerous pattern detected in command: '' @ pattern)
                ''Do not use shell operators in command arguments'')
      | None \<Rightarrow> sanitize_args rest (sanitized @ [arg]))"
| "sanitize_args (v # rest) sanitized =
     Inl (ConfigurationError
           ''All command arguments must be strings''
           ''Convert all arguments to strings'')"

fun sanitize_command :: "char pyval \<Rightarrow> exn + string list" where
  "sanitize_command (PyList cmd) =
     (if cmd = [] then
        Inl (ConfigurationError
              ''Command must be a non-empty list''
              ''Provide command as a list of strings'')
      else sanitize_args cmd [])"
| "sanitize_command v =
     Inl (ConfigurationError
           ''Command must be a non-empty list''
           ''Provide command as a list of strings'')"

text \<open>The three conditions of the claim, in its words.\<close>

definition is_nonempty_list :: "'c pyval \<Rightarrow> bool" where
  "is_nonempty_list v = (case v of PyList xs \<Rightarrow> xs \<noteq> [] | _ \<Rightarrow> False)"

definition is_str :: "'c pyval \<Rightarrow> bool" where
  "is_str v = (case v of PyStr s \<Rightarrow> True | _ \<Rightarrow> False)"

definition elements :: "'c pyval \<Rightarrow> 'c pyval list" where
  "elements v = (case v of PyList xs \<Rightarrow> xs | _ \<Rightarrow> [])"

definition has_substring :: "'c list \<Rightarrow> 'c list \<Rightarrow> bool" where
  "has_substring s p = (\<exists>before after. s = before @ p @ after)"

definition has_dangerous_argument :: "char pyval \<Rightarrow> bool" where
  "has_dangerous_argument v =
     (\<exists>arg pattern. PyStr arg \<in> set (elements v) \<and>
        pattern \<in> {'';'', ''&&'', ''||'', ''`'', ''$('', ''<'', ''>'', ''|''} \<and>
        has_substring arg pattern)"

definition raises_ConfigurationError :: "'c py_exn + 'a \<Rightarrow> bool" where
  "raises_ConfigurationError r = (\<exists>message suggestion. r = Inl (ConfigurationError message suggestion))"

subsection \<open>\<^verbatim>\<open>validate_model_name\<close>\<close>

text \<open>
  Strings here are lists of Unicode code points. \<open>py_isspace\<close> lists the code points
  Python's \<^verbatim>\<open>str.strip()\<close> removes (those for which \<^verbatim>\<open>str.isspace()\<close> holds).
\<close>

definition py_isspace :: "nat \<Rightarrow> bool" where
  "py_isspace c =
     ((9 \<le> c \<and> c \<le> 13) \<or> (28 \<le> c \<and> c \<le> 32) \<or> c = 133 \<or> c = 160 \<or> c = 5760 \<or>
      (8192 \<le> c \<and> c \<le> 8202) \<or> c = 8232 \<or> c = 8233 \<or> c = 8239 \<or> c = 8287 \<or> c = 12288)"

definition py_strip :: "nat list \<Rightarrow> nat list" where
  "py_strip s = rev (dropWhile py_isspace (rev (dropWhile py_isspace s)))"

text \<open>The character classes \<^verbatim>\<open>[a-zA-Z0-9._-]\<close> and \<^verbatim>\<open>[a-z0-9._-]\<close>, by code point.\<close>

definition model_name_char :: "nat \<Rightarrow> bool" where
  "model_name_char c =
     ((97 \<le> c \<and> c \<le> 122) \<or> (65 \<le> c \<and> c \<le> 90) \<or> (48 \<le> c \<and> c \<le> 57) \<or>
      c = 46 \<or> c = 95 \<or> c = 45)"

definition lower_name_char :: "nat \<Rightarrow> bool" where
  "lower_name_char c =
     ((97 \<le> c \<and> c \<le> 122) \<or> (48 \<le> c \<and> c \<le> 57) \<or> c = 46 \<or> c = 95 \<or> c = 45)"

text \<open>
  \<^verbatim>\<open>re.match(r"^[C]+$", s)\<close> for a character class \<open>C\<close>: one or more characters of the
  class, up to the end of the string or up to a single final newline (Python's \<^verbatim>\<open>$\<close>
  also matches just before a trailing newline).
\<close>

definition re_match_class_plus :: "(nat \<Rightarrow> bool) \<Rightarrow> nat list \<Rightarrow> bool" where
  "re_match_class_plus cls s =
     (let body = (if s \<noteq> [] \<and> last s = 10 then butlast s else s)
      in body \<noteq> [] \<and> list_all cls body)"

text \<open>
  \<^verbatim>\<open>str.lower()\<close>. It is only reached on strings the regular expression accepted, all of
  whose characters are ASCII; on those, lowering maps \<^verbatim>\<open>A-Z\<close> to \<^verbatim>\<open>a-z\<close> and keeps
  everything else.
\<close>

definition py_lower :: "nat list \<Rightarrow> nat list" where
  "py_lower s = map (\<lambda>c. if 65 \<le> c \<and> c \<le> 90 then c + 32 else c) s"

definition py :: "string \<Rightarrow> nat list" where
  "py s = map of_char s"

fun validate_model_name :: "nat pyval \<Rightarrow> nat py_exn + nat list" where
  "validate_model_name (PyStr model_name) =
     (if model_name = [] then
        Inl (ConfigurationError
              (py ''Model name must be a non-empty string'')
              (py (''Use a valid model name like 'tinyllama', 'gpt2', or 'mistral-7b'' @ [CHR 0x27])))
      else
        let stripped = py_strip model_name in
        if \<not> re_match_class_plus model_name_char stripped then
          Inl (ConfigurationError
                (py ''Invalid model name: '' @ stripped)
                (py ''Model name can only contain letters, numbers, dots, underscores, and hyphens''))
        else Inr (py_lower stripped))"
| "validate_model_name v =
     Inl (ConfigurationError
           (py ''Model name must be a non-empty string'')
           (py (''Use a valid model name like 'tinyllama', 'gpt2', or 'mistral-7b'' @ [CHR 0x27])))"

text \<open>An argument the outer loop of \<open>sanitize_command\<close> lets through.\<close>

definition safe_arg :: "char pyval \<Rightarrow> bool" where
  "safe_arg v = (case v of PyStr s \<Rightarrow> first_dangerous dangerous_patterns s = None | _ \<Rightarrow> False)"

section \<open>Floating-point numbers\<close>

text \<open>
  A Python \<^verbatim>\<open>float\<close> is an IEEE 754 double: a finite double is the rational it denotes
  (the sign of zero is not kept), and there are the two infinities and not-a-number.
  \<open>to_double\<close> rounds a rational to the nearest double, ties to the even mantissa: 53
  bits of mantissa, the exponent of the last bit not below \<open>-1074\<close> (subnormal numbers),
  and infinity when the rounded value reaches \<open>2 ^ 1024\<close>, that is when the exponent
  of its leading bit reaches 1024.
\<close>

datatype pyfloat = Finite rat | PosInf | NegInf | NaN

definition pow2 :: "int \<Rightarrow> rat" where
  "pow2 e = (if 0 \<le> e then 2 ^ nat e else 1 / 2 ^ nat (- e))"

definition round_half_even :: "rat \<Rightarrow> int" where
  "round_half_even x =
     (let f = \<lfloor>x\<rfloor>; r = x - of_int f
      in if r < 1 / 2 then f else if 1 / 2 < r then f + 1 else if even f then f else f + 1)"

text \<open>The exponent of the leading bit of a positive rational.\<close>

definition floor_log2 :: "rat \<Rightarrow> int" where
  "floor_log2 x =
     (case quotient_of x of
        (p, q) \<Rightarrow> (let k = bitlen p - bitlen q in if pow2 k \<le> x then k else k - 1))"

definition to_double :: "rat \<Rightarrow> pyfloat" where
  "to_double x =
     (if x = 0 then Finite 0
      else
        let a = \<bar>x\<bar>;
            e = max (floor_log2 a - 52) (- 1074);
            v = of_int (round_half_even (a / pow2 e)) * pow2 e
        in if 1024 \<le> floor_log2 v then (if 0 < x then PosInf else NegInf)
           else Finite (if 0 < x then v else - v))"

text \<open>The product of two floats, \<^verbatim>\<open>x * y\<close>.\<close>

fun fmul :: "pyfloat \<Rightarrow> pyfloat \<Rightarrow> pyfloat" where
  "fmul (Finite a) (Finite b) = to_double (a * b)"
| "fmul NaN y = NaN"
| "fmul x NaN = NaN"
| "fmul (Finite a) PosInf = (if a = 0 then NaN else if 0 < a then PosInf else NegInf)"
| "fmul (Finite a) NegInf = (if a = 0 then NaN else if 0 < a then NegInf else PosInf)"
| "fmul PosInf (Finite b) = (if b = 0 then NaN else if 0 < b then PosInf else NegInf)"
| "fmul NegInf (Finite b) = (if b = 0 then NaN else if 0 < b then NegInf else PosInf)"
| "fmul PosInf PosInf = PosInf"
| "fmul PosInf NegInf = NegInf"
| "fmul NegInf PosInf = NegInf"
| "fmul NegInf NegInf = PosInf"

section \<open>retry.py\<close>

text \<open>
  The decorated function has effects, so successive invocations may differ: \<open>func k\<close> is
  the outcome of its \<open>k\<close>-th invocation (\<open>Inl e\<close>: it raised \<open>e\<close>). \<open>exceptions e\<close> says
  whether \<open>e\<close> is an instance of a class of the tuple \<^verbatim>\<open>exceptions\<close>. A callback
  \<^verbatim>\<open>on_retry\<close> returns \<open>Some e'\<close> when it raises \<open>e'\<close>. \<^verbatim>\<open>delay\<close> and \<^verbatim>\<open>backoff\<close> are
  floats, as annotated. \<open>sleep_error d\<close> is what \<^verbatim>\<open>time.sleep(d)\<close> raises, if it raises (it
  does on a negative number, on not-a-number and on a number too large for its clock);
  it is taken from the environment. Exception objects are taken to be true where
  \<^verbatim>\<open>if last_exception:\<close> tests one, as the instances of the classes named by \<open>exn\<close> are.
  What the wrapper does besides returning is recorded as a trace of events, in order.
\<close>

datatype event =
    Call
  | LogWarning nat
  | LogError
  | OnRetry nat
  | Sleep pyfloat

text \<open>
  The \<^verbatim>\<open>for attempt in range(1, max_attempts + 1)\<close> loop of \<^verbatim>\<open>wrapper\<close>, entered at
  \<open>attempt\<close>, followed by the code after the loop. An exception of \<^verbatim>\<open>time.sleep\<close>,
  raised inside the handler, leaves the wrapper.
\<close>

function retry_loop ::
  "(pyfloat \<Rightarrow> exn option) \<Rightarrow> int \<Rightarrow> pyfloat \<Rightarrow> (exn \<Rightarrow> bool) \<Rightarrow>
   (exn \<Rightarrow> nat \<Rightarrow> exn option) option \<Rightarrow> string \<Rightarrow>
   (nat \<Rightarrow> exn + 'r) \<Rightarrow> nat \<Rightarrow> pyfloat \<Rightarrow> exn option \<Rightarrow> event list \<Rightarrow> (exn + 'r) \<times> event list"
where
  "retry_loop sleep_error max_attempts backoff exceptions on_retry func_name func
              attempt current_delay last_exception trace =
     (if int attempt \<le> max_attempts then
        (case func attempt of
           Inr result \<Rightarrow> (Inr result, trace @ [Call])
         | Inl e \<Rightarrow>
             if \<not> exceptions e then (Inl e, trace @ [Call])
             else if int attempt < max_attempts then
               (case (case on_retry of None \<Rightarrow> None | Some callback \<Rightarrow> callback e attempt) of
                  Some raised \<Rightarrow>
                    (Inl raised, trace @ [Call, LogWarning attempt, OnRetry attempt])
                | None \<Rightarrow>
                    (case sleep_error current_delay of
                       Some raised \<Rightarrow>
                         (Inl raised,
                          trace @ [Call, LogWarning attempt] @
                            (if on_retry = None then [] else [OnRetry attempt]))
                     | None \<Rightarrow>
                         retry_loop sleep_error max_attempts backoff exceptions on_retry
                           func_name func
                           (attempt + 1) (fmul current_delay backoff) (Some e)
                           (trace @ [Call, LogWarning attempt] @
                              (if on_retry = None then [] else [OnRetry attempt]) @
                              [Sleep current_delay])))
             else
               retry_loop sleep_error max_attempts backoff exceptions on_retry func_name func
                 (attempt + 1) current_delay (Some e) (trace @ [Call, LogError]))
      else
        (case last_exception of
           Some e \<Rightarrow>
             (Inl (DiagnosticError
                    (func_name @ '' failed after '' @ str_int max_attempts @ '' attempts'')
                    (''Last error: '' @ py_str e)
                    (Some e)),
              trace)
         | None \<Rightarrow> (Inl (RuntimeError ''Retry logic failed unexpectedly''), trace)))"
  by pat_completeness auto
termination
  by (relation "measure (\<lambda>(sleep_error, max_attempts, backoff, exceptions, on_retry, func_name,
                            func, attempt, current_delay, last_exception, trace).
                          nat (max_attempts + 1 - int attempt))") auto

text \<open>\<^verbatim>\<open>retry(max_attempts, delay, backoff, exceptions, on_retry)(func)\<close>, called once.\<close>

definition retry ::
  "(pyfloat \<Rightarrow> exn option) \<Rightarrow> int \<Rightarrow> pyfloat \<Rightarrow> pyfloat \<Rightarrow> (exn \<Rightarrow> bool) \<Rightarrow>
   (exn \<Rightarrow> nat \<Rightarrow> exn option) option \<Rightarrow> string \<Rightarrow>
   (nat \<Rightarrow> exn + 'r) \<Rightarrow> (exn + 'r) \<times> event list" where
  "retry sleep_error max_attempts delay backoff exceptions on_retry func_name func =
     retry_loop sleep_error max_attempts backoff exceptions on_retry func_name func
       1 delay None []"

text \<open>
  \<^verbatim>\<open>retry_network\<close>: three attempts, \<^verbatim>\<open>delay=1.0\<close>, \<^verbatim>\<open>backoff=2.0\<close>, on
  \<^verbatim>\<open>ConnectionError\<close>, \<^verbatim>\<open>TimeoutError\<close> and \<^verbatim>\<open>OSError\<close> (the first two are subclasses of
  the third).
\<close>

fun is_OSError :: "'c py_exn \<Rightarrow> bool" where
  "is_OSError (OSError s) = True"
| "is_OSError TimeoutError = True"
| "is_OSError e = False"

definition retry_network ::
  "(pyfloat \<Rightarrow> exn option) \<Rightarrow> string \<Rightarrow> (nat \<Rightarrow> exn + 'r) \<Rightarrow> (exn + 'r) \<times> event list" where
  "retry_network sleep_error func_name func =
     retry sleep_error 3 (Finite 1) (Finite 2) is_OSError None func_name func"

text \<open>
  \<^verbatim>\<open>time.sleep\<close> as CPython 3.11 has it on Linux, for a deadline that the clock can hold.
  The seconds are multiplied by \<^verbatim>\<open>1e9\<close> as doubles and rounded away from zero to whole
  nanoseconds, which changes neither test below. Not-a-number is refused with
  \<^verbatim>\<open>ValueError\<close>, nanoseconds outside 64 bits with \<^verbatim>\<open>OverflowError\<close> (an instance of
  \<^verbatim>\<open>Exception\<close>), and then a negative number with \<^verbatim>\<open>ValueError\<close>.
\<close>

definition time_sleep :: "pyfloat \<Rightarrow> exn option" where
  "time_sleep secs =
     (case fmul secs (Finite 1000000000) of
        NaN \<Rightarrow> Some (ValueError ''Invalid value NaN (not a number)'')
      | PosInf \<Rightarrow> Some (OtherException ''timestamp out of range for platform time_t'')
      | NegInf \<Rightarrow> Some (OtherException ''timestamp out of range for platform time_t'')
      | Finite ns \<Rightarrow>
          if ns < - (2 ^ 63) \<or> 2 ^ 63 \<le> ns
          then Some (OtherException ''timestamp out of range for platform time_t'')
          else if ns < 0 then Some (ValueError ''sleep length must be non-negative'')
          else None)"




text \<open>
  The first \<open>n\<close> delays of a wrapper: \<open>delay\<close>, then each the float product of the one
  before and \<open>backoff\<close>, as \<^verbatim>\<open>current_delay *= backoff\<close> computes them.
\<close>

fun delays :: "pyfloat \<Rightarrow> pyfloat \<Rightarrow> nat \<Rightarrow> pyfloat list" where
  "delays d backoff 0 = []"
| "delays d backoff (Suc n) = d # delays (fmul d backoff) backoff n"


section \<open>parallel.py\<close>

text \<open>
  A function called on an item returns a value (\<open>Inr\<close>) or raises (\<open>Inl\<close>). The worker
  threads finish in an order the program does not control; the model takes it as an
  argument: \<open>order\<close> lists the positions (in \<^verbatim>\<open>items_list\<close>) of the futures that
  \<^verbatim>\<open>as_completed\<close> yields, in the order it yields them. When the timeout expires before
  every future is done, \<open>order\<close> holds only those that finished in time, and
  \<^verbatim>\<open>as_completed\<close> raises \<^verbatim>\<open>TimeoutError\<close> after yielding them. The value of
  \<^verbatim>\<open>timeout\<close> itself only decides which orders can occur. \<^verbatim>\<open>as_completed\<close> yields
  each submitted future at most once and no other, so an order holds positions below the
  length of \<^verbatim>\<open>items_list\<close>, each at most once; the properties below are stated for such
  orders. Logging is left out.
\<close>

text \<open>Every future completed: \<open>order\<close> is a permutation of the positions.\<close>

definition all_completed :: "nat \<Rightarrow> nat list \<Rightarrow> bool" where
  "all_completed n order = (mset order = mset [0..<n])"

text \<open>
  \<^verbatim>\<open>ThreadPoolExecutor(max_workers=...)\<close> raises \<^verbatim>\<open>ValueError\<close> unless the number of
  workers is positive.
\<close>

definition executor_error :: exn where
  "executor_error = ValueError ''max_workers must be greater than 0''"

subsection \<open>\<^verbatim>\<open>run_parallel\<close>\<close>

text \<open>
  The loop over \<^verbatim>\<open>as_completed\<close>: a result is appended, or the exception of the future
  is raised again.
\<close>

fun gather :: "('a \<Rightarrow> exn + 'r) \<Rightarrow> 'a list \<Rightarrow> nat list \<Rightarrow> 'r list \<Rightarrow> nat \<Rightarrow> exn + 'r list \<times> nat" where
  "gather func items_list [] results completed = Inr (results, completed)"
| "gather func items_list (i # order) results completed =
     (case func (items_list ! i) of
        Inr result \<Rightarrow> gather func items_list order (results @ [result]) (completed + 1)
      | Inl e \<Rightarrow> Inl e)"

definition run_parallel :: "('a \<Rightarrow> exn + 'r) \<Rightarrow> 'a list \<Rightarrow> int \<Rightarrow> nat list \<Rightarrow> exn + 'r list" where
  "run_parallel func items_list max_workers order =
     (if items_list = [] then Inr []
      else if max_workers \<le> 0 then Inl executor_error
      else
        case gather func items_list order [] 0 of
          Inl e \<Rightarrow> Inl e
        | Inr (results, completed) \<Rightarrow>
            if \<not> all_completed (length items_list) order then Inl TimeoutError
            else if completed \<noteq> length items_list then
              Inl (RuntimeError (''Only '' @ str_nat completed @ ''/'' @
                                 str_nat (length items_list) @ '' tasks completed''))
            else Inr results)"

subsection \<open>\<^verbatim>\<open>run_parallel_with_results\<close>\<close>

text \<open>
  The loop over \<^verbatim>\<open>as_completed\<close>: \<^verbatim>\<open>except Exception\<close> turns an exception into the
  second component of the pair; a \<^verbatim>\<open>BaseException\<close> that is no \<^verbatim>\<open>Exception\<close> is not
  caught.
\<close>

fun gather_pairs ::
  "('a \<Rightarrow> exn + 'r) \<Rightarrow> 'a list \<Rightarrow> nat list \<Rightarrow> ('a \<times> (exn + 'r)) list \<Rightarrow> exn + ('a \<times> (exn + 'r)) list"
where
  "gather_pairs func items_list [] results = Inr results"
| "gather_pairs func items_list (i # order) results =
     (case func (items_list ! i) of
        Inr result \<Rightarrow>
          gather_pairs func items_list order (results @ [(items_list ! i, Inr result)])
      | Inl e \<Rightarrow>
          if is_Exception e then
            gather_pairs func items_list order (results @ [(items_list ! i, Inl e)])
          else Inl e)"

definition run_parallel_with_results ::
  "('a \<Rightarrow> exn + 'r) \<Rightarrow> 'a list \<Rightarrow> int \<Rightarrow> nat list \<Rightarrow> exn + ('a \<times> (exn + 'r)) list" where
  "run_parallel_with_results func items_list max_workers order =
     (if items_list = [] then Inr []
      else if max_workers \<le> 0 then Inl executor_error
      else
        case gather_pairs func items_list order [] of
          Inl e \<Rightarrow> Inl e
        | Inr results \<Rightarrow>
            if \<not> all_completed (length items_list) order then Inl TimeoutError
            else Inr results)"

text \<open>
  The pair the claim describes for one item: the item with the value the call returned, or
  with the exception it raised.
\<close>

definition pair_of :: "('a \<Rightarrow> exn + 'r) \<Rightarrow> 'a \<Rightarrow> 'a \<times> (exn + 'r)" where
  "pair_of func item = (item, func item)"

text \<open>No call on an item raises anything but an \<^verbatim>\<open>Exception\<close>.\<close>

definition raises_only_Exception :: "('a \<Rightarrow> exn + 'r) \<Rightarrow> 'a list \<Rightarrow> bool" where
  "raises_only_Exception func items_list =
     list_all (\<lambda>item. case func item of Inl e \<Rightarrow> is_Exception e | Inr v \<Rightarrow> True) items_list"

section \<open>diagnose.py: the result record\<close>

text \<open>
  \<^verbatim>\<open>class DiagnosticIssue\<close>: five attributes, \<^verbatim>\<open>details\<close> optional. The constructor
  stores its arguments as they are.
\<close>

record DiagnosticIssue =
  name :: string
  status :: string
  severity :: string
  "fix" :: string
  details :: "string option"

text \<open>
  Whitespace as \<^verbatim>\<open>str.split()\<close> sees it, on the bytes of ASCII text: tab, line feed,
  vertical tab, form feed, carriage return, the four separators \<^verbatim>\<open>0x1c\<close> to
  \<^verbatim>\<open>0x1f\<close>, and the space.
\<close>

definition is_space :: "char \<Rightarrow> bool" where
  "is_space c = (let n = (of_char c :: nat) in (9 \<le> n \<and> n \<le> 13) \<or> (28 \<le> n \<and> n \<le> 32))"

text \<open>
  \<^verbatim>\<open>s.split()[0]\<close>: the first whitespace-separated token; \<open>None\<close> when there is no
  token, where Python raises \<^verbatim>\<open>IndexError\<close>.
\<close>

definition first_token :: "string \<Rightarrow> string option" where
  "first_token s =
     (let rest = dropWhile is_space s
      in if rest = [] then None else Some (takeWhile (\<lambda>c. \<not> is_space c) rest))"



subsection \<open>icons.py\<close>

text \<open>
  \<^verbatim>\<open>get_icon\<close>: the emoji of the source file (as the bytes of its UTF-8 text) when the
  module found that emojis can be used, the ASCII alternative otherwise, and the empty
  string for an unknown name.
\<close>

definition emoji_icons :: "(string \<times> string) list" where
  "emoji_icons =
     [(''search'', [CHR 0xC4, CHR 0x9F, CHR 0xC5, CHR 0xB8, CHR 0xE2, CHR 0x80, CHR 0x9D]),
      (''check'', [CHR 0xC3, CHR 0xA2, CHR 0xC5, CHR 0x93, CHR 0xE2, CHR 0x80, CHR 0xA6]),
      (''cross'', [CHR 0xC3, CHR 0xA2, CHR 0xC5, CHR 0x92]),
      (''warning'', [CHR 0xC3, CHR 0xA2, CHR 0xC5, CHR 0xA1, CHR 0xC2, CHR 0xA0, CHR 0xC3, CHR 0xAF, CHR 0xC2, CHR 0xB8]),
      (''info'', [CHR 0xC3, CHR 0xA2, CHR 0xE2, CHR 0x80, CHR 0x9E, CHR 0xC2, CHR 0xB9, CHR 0xC3, CHR 0xAF, CHR 0xC2, CHR 0xB8]),
      (''wrench'', [CHR 0xC4, CHR 0x9F, CHR 0xC5, CHR 0xB8, CHR 0xE2, CHR 0x80, CHR 0x9D, CHR 0xC2, CHR 0xA7]),
      (''whale'', [CHR 0xC4, CHR 0x9F, CHR 0xC5, CHR 0xB8, CHR 0xC2, CHR 0xB3]),
      (''test'', [CHR 0xC4, CHR 0x9F, CHR 0xC5, CHR 0xB8, CHR 0xC2, CHR 0xA7, CHR 0xC2, CHR 0xAA])]"

definition ascii_icons :: "(string \<times> string) list" where
  "ascii_icons =
     [(''search'', ''[*]''),
      (''check'', ''[OK]''),
      (''cross'', ''[X]''),
      (''warning'', ''[!]''),
      (''info'', ''[i]''),
      (''wrench'', ''[FIX]''),
      (''whale'', ''[DOCKER]''),
      (''test'', ''[TEST]'')]"

definition get_icon :: "bool \<Rightarrow> string \<Rightarrow> string" where
  "get_icon use_emojis icon_name =
     (case map_of (if use_emojis then emoji_icons else ascii_icons) icon_name of
        Some icon \<Rightarrow> icon
      | None \<Rightarrow> [])"

definition icon_search :: "bool \<Rightarrow> string" where "icon_search use_emojis = get_icon use_emojis ''search''"

subsection \<open>\<^verbatim>\<open>to_row\<close>\<close>





section \<open>export.py and the printed table\<close>

subsection \<open>The state the exports act on\<close>

text \<open>
  What the functions below read and change besides their arguments: the files (path to
  content), the console (what \<^verbatim>\<open>console.print\<close> was given, in order), the clock as
  \<^verbatim>\<open>datetime.now()\<close> prints it in the two formats used, the paths a write to which fails
  (with the \<^verbatim>\<open>OSError\<close> raised), and whether \<^verbatim>\<open>icons.py\<close> uses emojis.
\<close>

datatype printed =
    PrintText string
  | PrintTable "(string \<times> string \<times> string \<times> string) list"

record world =
  files :: "string \<Rightarrow> string option"
  console :: "printed list"
  clock_isoformat :: string
  clock_strftime :: string
  write_error :: "string \<Rightarrow> exn option"
  use_emojis :: bool



subsection \<open>The three summaries\<close>







subsection \<open>\<^verbatim>\<open>json.dumps(export_data, indent=2, ensure_ascii=False)\<close>\<close>





text \<open>Items separated by a comma, each on a line of its own.\<close>

fun join_with :: "string \<Rightarrow> string list \<Rightarrow> string" where
  "join_with sep [] = []"
| "join_with sep [x] = x"
| "join_with sep (x # y # rest) = x @ sep @ join_with sep (y # rest)"



subsection \<open>\<^verbatim>\<open>export_json\<close>\<close>





subsection \<open>\<^verbatim>\<open>export_csv\<close>\<close>





subsection \<open>\<^verbatim>\<open>export_html\<close>\<close>












subsection \<open>\<^verbatim>\<open>print_diagnostic_table\<close>\<close>




subsection \<open>Reading the outcome of an export\<close>





section \<open>The environment the probes read\<close>

text \<open>
  The probes ask the machine: they run commands, import libraries, query the GPU, the
  disk and the network. What the machine answers is the environment \<open>env\<close>; a probe is a
  function of it. An answer of type \<open>exn + 'a\<close> is a library call that returns or raises.
\<close>

text \<open>
  \<^verbatim>\<open>subprocess.run(cmd, ...)\<close> without \<^verbatim>\<open>check\<close>: the process completes with a return
  code and its output, or the call raises \<^verbatim>\<open>TimeoutExpired\<close>, \<^verbatim>\<open>FileNotFoundError\<close>
  (each with its \<^verbatim>\<open>str\<close>) or something else.
\<close>

datatype proc_outcome =
    Completed int string
  | TimeoutExpired string
  | FileNotFoundError string
  | ProcRaises exn

text \<open>The attributes and calls of the \<^verbatim>\<open>torch\<close> module that the probes use.\<close>

record torch_module =
  torch_version :: string
  cuda_is_available :: "exn + bool"
  version_cuda :: "string option"
  cuda_device_count :: "exn + int"
  cuda_get_device_name :: "exn + string"
  cuda_mem_get_info :: "exn + int \<times> int"

text \<open>
  \<^item> \<open>platform_win32\<close>: \<^verbatim>\<open>sys.platform == "win32"\<close>;
  \<^item> \<open>subprocess_run\<close>: the outcome of running a command line;
  \<^item> \<open>torch\<close>: the module, \<open>None\<close> when its import failed;
  \<^item> \<open>import_module\<close>: \<^verbatim>\<open>importlib.import_module\<close>, returning the module's
    \<^verbatim>\<open>__version__\<close> attribute when it has one;
  \<^item> \<open>version_less v m\<close>: importing \<^verbatim>\<open>packaging.version\<close> and comparing
    \<^verbatim>\<open>parse(v) < parse(m)\<close>;
  \<^item> \<open>hf_cache_free\<close>: the statements of \<^verbatim>\<open>check_disk_space\<close> up to
    \<^verbatim>\<open>shutil.disk_usage\<close>: the free bytes, \<open>None\<close> when the cache directory does not
    exist, or the exception one of them raised;
  \<^item> \<open>urlopen k\<close>: the \<open>k\<close>-th call of \<^verbatim>\<open>urllib.request.urlopen\<close> on the hub;
  \<^item> \<open>sleep d\<close>: the exception \<^verbatim>\<open>time.sleep(d)\<close> raises, if it raises;
  \<^item> \<open>py_int\<close>: the builtin \<^verbatim>\<open>int\<close> on a string;
  \<^item> \<open>format_1f\<close>, \<open>format_2f\<close>: a number printed with one and with two decimals
    (\<^verbatim>\<open>:.1f\<close>, \<^verbatim>\<open>:.2f\<close>); the numbers are exact rationals.
\<close>

record env =
  platform_win32 :: bool
  subprocess_run :: "string list \<Rightarrow> proc_outcome"
  torch :: "torch_module option"
  import_module :: "string \<Rightarrow> exn + string option"
  version_less :: "string \<Rightarrow> string \<Rightarrow> exn + bool"
  hf_cache_free :: "exn + int option"
  urlopen :: "nat \<Rightarrow> exn + unit"
  sleep :: "pyfloat \<Rightarrow> exn option"
  py_int :: "string \<Rightarrow> exn + int"
  format_1f :: "rat \<Rightarrow> string"
  format_2f :: "rat \<Rightarrow> string"

section \<open>utils.py\<close>

text \<open>
  \<^verbatim>\<open>validate_timeout\<close> (of validators.py) on an integer or \<^verbatim>\<open>None\<close>.
\<close>

definition validate_timeout :: "int option \<Rightarrow> int \<Rightarrow> int \<Rightarrow> exn + int option" where
  "validate_timeout timeout min_timeout max_timeout =
     (case timeout of
        None \<Rightarrow> Inr None
      | Some t \<Rightarrow>
          if t < min_timeout then
            Inl (ConfigurationError
                  (''Timeout too small: '' @ str_int t @ ''s (minimum: '' @ str_int min_timeout @ ''s)'')
                  (''Increase timeout to at least '' @ str_int min_timeout @ '' seconds''))
          else if t > max_timeout then
            Inl (ConfigurationError
                  (''Timeout too large: '' @ str_int t @ ''s (maximum: '' @ str_int max_timeout @ ''s)'')
                  (''Decrease timeout to at most '' @ str_int max_timeout @ '' seconds''))
          else Inr (Some t))"

text \<open>
  \<^verbatim>\<open>run_command(cmd, timeout=...)\<close> with \<^verbatim>\<open>check\<close> left at \<^verbatim>\<open>False\<close>, as every
  caller modelled here leaves it (\<^verbatim>\<open>subprocess.run\<close> then never raises
  \<^verbatim>\<open>CalledProcessError\<close>). It returns the return code and the captured output. What it
  prints to the console before raising is left out. \<open>first_arg\<close> is \<^verbatim>\<open>cmd[0]\<close>; the
  command is not empty where it is read, \<open>sanitize_command\<close> having accepted it.
\<close>

definition first_arg :: "string list \<Rightarrow> string" where
  "first_arg args = (case args of a # rest \<Rightarrow> a | [] \<Rightarrow> [])"

definition run_command :: "env \<Rightarrow> char pyval \<Rightarrow> int option \<Rightarrow> exn + int \<times> string" where
  "run_command env cmd timeout =
     (case sanitize_command cmd of
        Inl e \<Rightarrow> Inl e
      | Inr args \<Rightarrow>
          (case validate_timeout timeout 1 3600 of
             Inl e \<Rightarrow> Inl e
           | Inr timeout' \<Rightarrow>
               (case subprocess_run env args of
                  Completed returncode stdout \<Rightarrow> Inr (returncode, stdout)
                | TimeoutExpired s \<Rightarrow>
                    Inl (DiagnosticError
                          (''Command timed out after '' @
                             (case timeout' of None \<Rightarrow> ''None'' | Some t \<Rightarrow> str_int t) @
                             ''s: '' @ join_with '' '' args)
                          ''Try increasing timeout or check if the command is hanging''
                          (Some (OtherException s)))
                | FileNotFoundError s \<Rightarrow>
                    Inl (DiagnosticError
                          (''Command not found: '' @ first_arg args)
                          (''Install '' @ first_arg args @ '' or ensure it's in your PATH'')
                          (Some (OSError s)))
                | ProcRaises e \<Rightarrow> Inl e)))"

text \<open>
  \<^verbatim>\<open>check_command_exists\<close>: \<^verbatim>\<open>which\<close> (or \<^verbatim>\<open>where\<close>) returns 0. Its handler
  catches \<^verbatim>\<open>Exception\<close>.
\<close>

definition check_command_exists :: "env \<Rightarrow> string \<Rightarrow> exn + bool" where
  "check_command_exists env cmd =
     (if list_all is_space cmd then Inr False
      else
        case subprocess_run env [if platform_win32 env then ''where'' else ''which'', cmd] of
          Completed returncode stdout \<Rightarrow> Inr (returncode = 0)
        | TimeoutExpired s \<Rightarrow> Inr False
        | FileNotFoundError s \<Rightarrow> Inr False
        | ProcRaises e \<Rightarrow> if is_Exception e then Inr False else Inl e)"

text \<open>
  \<^verbatim>\<open>format_size\<close>: divide by 1024 until the number is below 1024, and print it with two
  decimals and its unit.
\<close>

fun format_size_from :: "env \<Rightarrow> string list \<Rightarrow> rat \<Rightarrow> string" where
  "format_size_from env [] size_bytes = format_2f env size_bytes @ '' PB''"
| "format_size_from env (u # units) size_bytes =
     (if size_bytes < 1024 then format_2f env size_bytes @ '' '' @ u
      else format_size_from env units (size_bytes / 1024))"

definition format_size :: "env \<Rightarrow> int \<Rightarrow> string" where
  "format_size env size_bytes =
     format_size_from env [''B'', ''KB'', ''MB'', ''GB'', ''TB''] (of_int size_bytes)"

section \<open>diagnose.py: the probes\<close>

text \<open>
  A probe returns its list of records or raises. Every \<^verbatim>\<open>except Exception\<close> of the
  source is a test \<open>is_Exception\<close>: what it does not catch leaves the probe.
\<close>

subsection \<open>\<^verbatim>\<open>check_cuda_driver\<close>\<close>

definition is_digit :: "char \<Rightarrow> bool" where
  "is_digit c = (let n = (of_char c :: nat) in 48 \<le> n \<and> n \<le> 57)"

text \<open>
  \<^verbatim>\<open>re.search(r"CUDA Version: (\d+\.\d+)", output)\<close>: the group of the leftmost match,
  digits being the ASCII digits. At a position the expression matches when the literal is
  followed by digits, a dot and digits; both runs of digits are taken whole.
\<close>

definition cuda_version_at :: "string \<Rightarrow> string option" where
  "cuda_version_at s =
     (if starts_with ''CUDA Version: '' s then
        (let rest = drop 14 s;
             major = takeWhile is_digit rest;
             after_major = dropWhile is_digit rest
         in case after_major of
              [] \<Rightarrow> None
            | c # after_dot \<Rightarrow>
                (let minor = takeWhile is_digit after_dot
                 in if major \<noteq> [] \<and> c = CHR ''.'' \<and> minor \<noteq> []
                    then Some (major @ ''.'' @ minor) else None))
      else None)"

fun cuda_version_search :: "string \<Rightarrow> string option" where
  "cuda_version_search [] = None"
| "cuda_version_search (c # cs) =
     (case cuda_version_at (c # cs) of
        Some v \<Rightarrow> Some v
      | None \<Rightarrow> cuda_version_search cs)"

definition check_cuda_driver :: "env \<Rightarrow> exn + DiagnosticIssue list" where
  "check_cuda_driver env =
     (case check_command_exists env ''nvidia-smi'' of
        Inl e \<Rightarrow> Inl e
      | Inr False \<Rightarrow>
          Inr [\<lparr>name = ''NVIDIA GPU Driver'',
                status = ''FAIL - nvidia-smi not found'',
                severity = ''critical'',
                fix = ''Install NVIDIA drivers: https://www.nvidia.com/Download/index.aspx'',
                details = None\<rparr>]
      | Inr True \<Rightarrow>
          (case run_command env (PyList [PyStr ''nvidia-smi'']) (Some 10) of
             Inl e \<Rightarrow>
               if is_Exception e then
                 Inr [\<lparr>name = ''NVIDIA GPU Driver'',
                       status = ''FAIL - '' @ py_str e,
                       severity = ''critical'',
                       fix = ''Install NVIDIA drivers and reboot'',
                       details = None\<rparr>]
               else Inl e
           | Inr (returncode, output) \<Rightarrow>
               if returncode \<noteq> 0 then
                 Inr [\<lparr>name = ''NVIDIA GPU Driver'',
                       status = ''FAIL - nvidia-smi error'',
                       severity = ''critical'',
                       fix = ''Install/reinstall NVIDIA drivers and reboot'',
                       details = None\<rparr>]
               else
                 (let cuda_version = (case cuda_version_search output of
                                        Some v \<Rightarrow> v | None \<Rightarrow> ''unknown'')
                  in if py_in ''Driver Version'' output then
                       Inr [\<lparr>name = ''NVIDIA GPU Driver'',
                             status = ''PASS - CUDA '' @ cuda_version,
                             severity = ''info'',
                             fix = [],
                             details = Some (''CUDA Version: '' @ cuda_version)\<rparr>]
                     else
                       Inr [\<lparr>name = ''NVIDIA GPU Driver'',
                             status = ''FAIL - No GPU detected'',
                             severity = ''critical'',
                             fix = ''Check GPU installation and drivers'',
                             details = None\<rparr>])))"

subsection \<open>\<^verbatim>\<open>check_pytorch_cuda\<close>\<close>

text \<open>\<^verbatim>\<open>s.split(sep)\<close> for a separator of one character.\<close>

fun split_on :: "char \<Rightarrow> string \<Rightarrow> string list" where
  "split_on sep [] = [[]]"
| "split_on sep (c # cs) =
     (if c = sep then [] # split_on sep cs
      else (case split_on sep cs of
              piece # pieces \<Rightarrow> (c # piece) # pieces
            | [] \<Rightarrow> [[c]]))"

text \<open>
  \<^verbatim>\<open>torch_major, torch_minor = map(int, torch_version.split(".")[:2])\<close>: the two numbers,
  or the \<^verbatim>\<open>ValueError\<close> of \<^verbatim>\<open>int\<close> or of unpacking a single value.
\<close>

definition parse_major_minor :: "env \<Rightarrow> string \<Rightarrow> exn + int \<times> int" where
  "parse_major_minor env torch_version_text =
     (case take 2 (split_on CHR ''.'' torch_version_text) of
        a # b # rest \<Rightarrow>
          (case py_int env a of
             Inl e \<Rightarrow> Inl e
           | Inr torch_major \<Rightarrow>
               (case py_int env b of
                  Inl e \<Rightarrow> Inl e
                | Inr torch_minor \<Rightarrow> Inr (torch_major, torch_minor)))
      | [a] \<Rightarrow>
          (case py_int env a of
             Inl e \<Rightarrow> Inl e
           | Inr torch_major \<Rightarrow>
               Inl (ValueError ''not enough values to unpack (expected 2, got 1)''))
      | [] \<Rightarrow> Inl (ValueError ''not enough values to unpack (expected 2, got 0)''))"

text \<open>
  The \<^verbatim>\<open>try\<close> block: the records appended so far, and the exception that ended the
  block, if one did.
\<close>

definition pytorch_cuda_try :: "env \<Rightarrow> torch_module \<Rightarrow> DiagnosticIssue list \<times> exn option" where
  "pytorch_cuda_try env t =
     (case cuda_is_available t of
        Inl e \<Rightarrow> ([], Some e)
      | Inr False \<Rightarrow>
          ([\<lparr>name = ''PyTorch CUDA'',
             status = ''FAIL - CUDA not available'',
             severity = ''critical'',
             fix = ''pip install torch --index-url https://download.pytorch.org/whl/cu124'',
             details = Some (''PyTorch '' @ torch_version t @
                             '' installed but CUDA not available'')\<rparr>], None)
      | Inr True \<Rightarrow>
          (let cuda_version = (case version_cuda t of
                                 None \<Rightarrow> ''unknown''
                               | Some v \<Rightarrow> if v = [] then ''unknown'' else v)
           in case cuda_device_count t of
                Inl e \<Rightarrow> ([], Some e)
              | Inr device_count \<Rightarrow>
                  (case (if device_count > 0 then cuda_get_device_name t else Inr ''unknown'') of
                     Inl e \<Rightarrow> ([], Some e)
                   | Inr device_name \<Rightarrow>
                       (let passed =
                              [\<lparr>name = ''PyTorch CUDA'',
                                status = ''PASS - CUDA '' @ cuda_version @ '' ('' @
                                         str_int device_count @ '' GPU(s))'',
                                severity = ''info'',
                                fix = [],
                                details = Some (''PyTorch '' @ torch_version t @ '', Device: '' @
                                                device_name)\<rparr>]
                        in case parse_major_minor env (torch_version t) of
                             Inl e \<Rightarrow> (passed, Some e)
                           | Inr (torch_major, torch_minor) \<Rightarrow>
                               if torch_major < 2 \<or> (torch_major = 2 \<and> torch_minor < 4) then
                                 (passed @
                                  [\<lparr>name = ''PyTorch Version'',
                                    status = ''WARN - Old version'',
                                    severity = ''warning'',
                                    fix = ''Upgrade: pip install torch>=2.4.0 --index-url https://download.pytorch.org/whl/cu124'',
                                    details = Some (''Current: '' @ torch_version t @
                                                    '', Recommended: >=2.4.0'')\<rparr>], None)
                               else (passed, None)))))"

definition check_pytorch_cuda :: "env \<Rightarrow> exn + DiagnosticIssue list" where
  "check_pytorch_cuda env =
     (case torch env of
        None \<Rightarrow>
          Inr [\<lparr>name = ''PyTorch Installation'',
                status = ''FAIL - Not installed'',
                severity = ''critical'',
                fix = ''pip install torch --index-url https://download.pytorch.org/whl/cu124'',
                details = None\<rparr>]
      | Some t \<Rightarrow>
          (case pytorch_cuda_try env t of
             (issues, None) \<Rightarrow> Inr issues
           | (issues, Some e) \<Rightarrow>
               if is_Exception e then
                 Inr (issues @
                      [\<lparr>name = ''PyTorch CUDA'',
                        status = ''FAIL - '' @ py_str e,
                        severity = ''critical'',
                        fix = ''Reinstall PyTorch with CUDA support'',
                        details = None\<rparr>])
               else Inl e))"

subsection \<open>\<^verbatim>\<open>check_ml_libraries\<close>\<close>

definition required_libs :: "(string \<times> string) list" where
  "required_libs =
     [(''transformers'', ''>=4.44.0''),
      (''peft'', ''>=0.12.0''),
      (''trl'', ''>=0.9.0''),
      (''datasets'', ''>=2.20.0''),
      (''accelerate'', ''>=1.0.0'')]"

text \<open>
  \<^verbatim>\<open>s.replace(old, new)\<close>: the occurrences of \<open>old\<close> from left to right, not
  overlapping; an empty \<open>old\<close> matches before every character and at the end.
\<close>

function py_replace :: "string \<Rightarrow> string \<Rightarrow> string \<Rightarrow> string" where
  "py_replace old new s =
     (if old = [] then new @ concat (map (\<lambda>c. c # new) s)
      else case s of
             [] \<Rightarrow> []
           | c # cs \<Rightarrow>
               if starts_with old s then new @ py_replace old new (drop (length old) s)
               else c # py_replace old new cs)"
  by pat_completeness auto
termination
  by (relation "measure (\<lambda>(old, new, s). length s)") auto

fun is_ImportError :: "'c py_exn \<Rightarrow> bool" where
  "is_ImportError (ImportError s) = True"
| "is_ImportError e = False"

text \<open>One turn of the loop over \<^verbatim>\<open>required_libs\<close>: the record it appends.\<close>

definition check_library :: "env \<Rightarrow> string \<Rightarrow> string \<Rightarrow> exn + DiagnosticIssue" where
  "check_library env lib_name version_req =
     (case import_module env lib_name of
        Inl e \<Rightarrow>
          if is_ImportError e then
            Inr \<lparr>name = lib_name,
                 status = ''FAIL - Not installed'',
                 severity = ''critical'',
                 fix = ''pip install '' @ lib_name @ version_req,
                 details = None\<rparr>
          else Inl e
      | Inr attribute \<Rightarrow>
          (let version = (case attribute of None \<Rightarrow> ''unknown'' | Some v \<Rightarrow> v);
               min_version = py_replace ''>='' [] version_req
           in if version \<noteq> ''unknown'' then
                (case version_less env version min_version of
                   Inr True \<Rightarrow>
                     Inr \<lparr>name = lib_name,
                          status = ''WARN - Old version ('' @ version @ '')'',
                          severity = ''warning'',
                          fix = ''pip install '' @ lib_name @ version_req,
                          details = Some (''Current: '' @ version @ '', Required: '' @
                                          version_req)\<rparr>
                 | Inr False \<Rightarrow>
                     Inr \<lparr>name = lib_name,
                          status = ''PASS - '' @ version,
                          severity = ''info'',
                          fix = [],
                          details = None\<rparr>
                 | Inl e \<Rightarrow>
                     if is_Exception e then
                       Inr \<lparr>name = lib_name,
                            status = ''PASS - Installed'',
                            severity = ''info'',
                            fix = [],
                            details = Some (''Version: '' @ version)\<rparr>
                     else Inl e)
              else
                Inr \<lparr>name = lib_name,
                     status = ''PASS - Installed'',
                     severity = ''info'',
                     fix = [],
                     details = None\<rparr>))"

fun check_libraries :: "env \<Rightarrow> (string \<times> string) list \<Rightarrow> DiagnosticIssue list \<Rightarrow> exn + DiagnosticIssue list" where
  "check_libraries env [] issues = Inr issues"
| "check_libraries env ((lib_name, version_req) # libs) issues =
     (case check_library env lib_name version_req of
        Inl e \<Rightarrow> Inl e
      | Inr issue \<Rightarrow> check_libraries env libs (issues @ [issue]))"

definition check_ml_libraries :: "env \<Rightarrow> exn + DiagnosticIssue list" where
  "check_ml_libraries env = check_libraries env required_libs []"

subsection \<open>\<^verbatim>\<open>check_gpu_memory\<close>\<close>

definition check_gpu_memory :: "env \<Rightarrow> exn + DiagnosticIssue list" where
  "check_gpu_memory env =
     (case torch env of
        None \<Rightarrow> Inr []
      | Some t \<Rightarrow>
          (case cuda_is_available t of
             Inl e \<Rightarrow> Inl e
           | Inr False \<Rightarrow> Inr []
           | Inr True \<Rightarrow>
               (case cuda_mem_get_info t of
                  Inl e \<Rightarrow>
                    if is_Exception e then
                      Inr [\<lparr>name = ''GPU Memory'',
                            status = ''FAIL - '' @ py_str e,
                            severity = ''warning'',
                            fix = ''Check GPU access'',
                            details = None\<rparr>]
                    else Inl e
                | Inr (free_mem, total_mem) \<Rightarrow>
                    (let free_gb = (of_int free_mem :: rat) / 1024 ^ 3;
                         total_gb = (of_int total_mem :: rat) / 1024 ^ 3
                     in if free_gb < 8 then
                          Inr [\<lparr>name = ''GPU Memory'',
                                status = ''WARN - Low memory ('' @ format_1f env free_gb @
                                         ''GB free)'',
                                severity = ''warning'',
                                fix = ''Close other processes or use smaller models'',
                                details = Some (''Free: '' @ format_1f env free_gb @
                                                ''GB / Total: '' @ format_1f env total_gb @
                                                ''GB'')\<rparr>]
                        else
                          Inr [\<lparr>name = ''GPU Memory'',
                                status = ''PASS - '' @ format_1f env free_gb @ ''GB free'',
                                severity = ''info'',
                                fix = [],
                                details = Some (''Free: '' @ format_1f env free_gb @
                                                ''GB / Total: '' @ format_1f env total_gb @
                                                ''GB'')\<rparr>]))))"

subsection \<open>\<^verbatim>\<open>check_disk_space\<close>\<close>

definition check_disk_space :: "env \<Rightarrow> exn + DiagnosticIssue list" where
  "check_disk_space env =
     (case hf_cache_free env of
        Inl e \<Rightarrow>
          if is_Exception e then
            Inr [\<lparr>name = ''Disk Space'',
                  status = ''WARN - '' @ py_str e,
                  severity = ''warning'',
                  fix = ''Check disk space manually'',
                  details = None\<rparr>]
          else Inl e
      | Inr None \<Rightarrow>
          Inr [\<lparr>name = ''Disk Space'',
                status = ''INFO - Cache dir not found'',
                severity = ''info'',
                fix = [],
                details = None\<rparr>]
      | Inr (Some free) \<Rightarrow>
          (let free_gb = (of_int free :: rat) / 1024 ^ 3
           in if free_gb < 50 then
                Inr [\<lparr>name = ''Disk Space'',
                      status = ''WARN - Low space ('' @ format_1f env free_gb @ ''GB free)'',
                      severity = ''warning'',
                      fix = ''Free up disk space (HF cache needs ~50GB)'',
                      details = Some (''Free: '' @ format_size env free)\<rparr>]
              else
                Inr [\<lparr>name = ''Disk Space'',
                      status = ''PASS - '' @ format_1f env free_gb @ ''GB free'',
                      severity = ''info'',
                      fix = [],
                      details = Some (''Free: '' @ format_size env free)\<rparr>]))"

subsection \<open>\<^verbatim>\<open>check_docker_gpu\<close>\<close>

definition docker_test_command :: "string list" where
  "docker_test_command =
     [''docker'', ''run'', ''--rm'', ''--gpus'', ''all'',
      ''nvidia/cuda:12.4.0-base-ubuntu22.04'', ''nvidia-smi'']"

definition check_docker_gpu :: "env \<Rightarrow> exn + DiagnosticIssue list" where
  "check_docker_gpu env =
     (case check_command_exists env ''docker'' of
        Inl e \<Rightarrow> Inl e
      | Inr False \<Rightarrow>
          Inr [\<lparr>name = ''Docker GPU Support'',
                status = ''INFO - Docker not installed'',
                severity = ''info'',
                fix = ''Install Docker for GPU containerization'',
                details = None\<rparr>]
      | Inr True \<Rightarrow>
          (case run_command env (PyList (map PyStr docker_test_command)) (Some 30) of
             Inl e \<Rightarrow>
               if is_Exception e then
                 Inr [\<lparr>name = ''Docker GPU Support'',
                       status = ''INFO - Docker GPU test skipped'',
                       severity = ''info'',
                       fix = ''Test manually: docker run --rm --gpus all nvidia/cuda:12.4.0-base-ubuntu22.04 nvidia-smi'',
                       details = None\<rparr>]
               else Inl e
           | Inr (returncode, output) \<Rightarrow>
               if returncode = 0 then
                 Inr [\<lparr>name = ''Docker GPU Support'',
                       status = ''PASS - nvidia-docker working'',
                       severity = ''info'',
                       fix = [],
                       details = None\<rparr>]
               else
                 Inr [\<lparr>name = ''Docker GPU Support'',
                       status = ''FAIL - GPU not accessible in Docker'',
                       severity = ''warning'',
                       fix = ''Install nvidia-container-toolkit: https://docs.nvidia.com/datacenter/cloud-native/container-toolkit/install-guide.html'',
                       details = None\<rparr>]))"

subsection \<open>\<^verbatim>\<open>check_internet_connectivity\<close>\<close>

text \<open>
  \<^verbatim>\<open>_check_connectivity\<close> is \<^verbatim>\<open>urlopen\<close> followed by \<^verbatim>\<open>return True\<close>, wrapped by
  \<open>retry_network\<close>.
\<close>

definition check_connectivity :: "env \<Rightarrow> exn + bool" where
  "check_connectivity env =
     fst (retry_network (sleep env) ''_check_connectivity''
            (\<lambda>k. case urlopen env k of Inl e \<Rightarrow> Inl e | Inr u \<Rightarrow> Inr True))"

definition check_internet_connectivity :: "env \<Rightarrow> exn + DiagnosticIssue list" where
  "check_internet_connectivity env =
     (case check_connectivity env of
        Inr reached \<Rightarrow>
          Inr [\<lparr>name = ''Internet Connectivity'',
                status = ''PASS - HF Hub accessible'',
                severity = ''info'',
                fix = [],
                details = None\<rparr>]
      | Inl e \<Rightarrow>
          if is_Exception e then
            Inr [\<lparr>name = ''Internet Connectivity'',
                  status = ''WARN - Cannot reach HF Hub'',
                  severity = ''warning'',
                  fix = ''Check internet connection and firewall settings'',
                  details = Some (py_str e)\<rparr>]
          else Inl e)"

section \<open>diagnose.py: \<^verbatim>\<open>diagnose_env\<close>\<close>

text \<open>
  The seven probe functions as values: \<open>diagnose_env\<close> keeps them in lists, calls them and
  reads their \<^verbatim>\<open>__name__\<close>.
\<close>

datatype check_func =
    Check_cuda_driver
  | Check_pytorch_cuda
  | Check_ml_libraries
  | Check_gpu_memory
  | Check_disk_space
  | Check_docker_gpu
  | Check_internet_connectivity

fun check_func_name :: "check_func \<Rightarrow> string" where
  "check_func_name Check_cuda_driver = ''check_cuda_driver''"
| "check_func_name Check_pytorch_cuda = ''check_pytorch_cuda''"
| "check_func_name Check_ml_libraries = ''check_ml_libraries''"
| "check_func_name Check_gpu_memory = ''check_gpu_memory''"
| "check_func_name Check_disk_space = ''check_disk_space''"
| "check_func_name Check_docker_gpu = ''check_docker_gpu''"
| "check_func_name Check_internet_connectivity = ''check_internet_connectivity''"

text \<open>\<^verbatim>\<open>check_func()\<close>.\<close>

fun call_check :: "env \<Rightarrow> check_func \<Rightarrow> exn + DiagnosticIssue list" where
  "call_check env Check_cuda_driver = check_cuda_driver env"
| "call_check env Check_pytorch_cuda = check_pytorch_cuda env"
| "call_check env Check_ml_libraries = check_ml_libraries env"
| "call_check env Check_gpu_memory = check_gpu_memory env"
| "call_check env Check_disk_space = check_disk_space env"
| "call_check env Check_docker_gpu = check_docker_gpu env"
| "call_check env Check_internet_connectivity = check_internet_connectivity env"

definition core_checks :: "check_func list" where
  "core_checks = [Check_cuda_driver, Check_pytorch_cuda, Check_ml_libraries]"

definition extended_checks :: "check_func list" where
  "extended_checks =
     [Check_gpu_memory, Check_disk_space, Check_docker_gpu, Check_internet_connectivity]"

text \<open>
  \<^verbatim>\<open>str.title()\<close> on ASCII text: a letter is put in upper case when the character before
  it is not a letter, and in lower case otherwise.
\<close>

fun title_from :: "bool \<Rightarrow> string \<Rightarrow> string" where
  "title_from after_letter [] = []"
| "title_from after_letter (c # cs) =
     (let n = (of_char c :: nat) in
      if 97 \<le> n \<and> n \<le> 122 then
        (if after_letter then c else char_of (n - 32)) # title_from True cs
      else if 65 \<le> n \<and> n \<le> 90 then
        (if after_letter then char_of (n + 32) else c) # title_from True cs
      else c # title_from False cs)"

definition py_title :: "string \<Rightarrow> string" where
  "py_title s = title_from False s"

text \<open>The record \<open>diagnose_env\<close> makes for a core check that raised.\<close>

definition check_error_issue :: "check_func \<Rightarrow> exn \<Rightarrow> DiagnosticIssue" where
  "check_error_issue check_func e =
     \<lparr>name = py_title (py_replace ''_'' '' '' (py_replace ''check_'' [] (check_func_name check_func))),
      status = ''FAIL - Check error'',
      severity = ''critical'',
      fix = ''Run diagnostics again or check logs'',
      details = Some (py_str e)\<rparr>"

text \<open>What \<open>diagnose_env\<close> writes to the logger.\<close>

datatype log_entry =
    LoggedError string
  | LoggedWarning string

definition core_failure_log :: "check_func \<Rightarrow> exn \<Rightarrow> log_entry" where
  "core_failure_log check_func e =
     LoggedError (''Check '' @ check_func_name check_func @ '' failed: '' @ py_str e)"

definition extended_failure_log :: "check_func \<Rightarrow> exn \<Rightarrow> log_entry" where
  "extended_failure_log check_func e =
     LoggedWarning (''Extended check '' @ check_func_name check_func @ '' failed: '' @ py_str e)"

text \<open>
  The loops \<^verbatim>\<open>for check_func, result in results\<close> of the parallel branches, over the
  pairs of \<open>run_parallel_with_results\<close>, with \<^verbatim>\<open>all_issues\<close> and the log so far.
\<close>

fun add_core_results ::
  "(check_func \<times> (exn + DiagnosticIssue list)) list \<Rightarrow> DiagnosticIssue list \<Rightarrow> log_entry list \<Rightarrow>
   DiagnosticIssue list \<times> log_entry list" where
  "add_core_results [] all_issues logged = (all_issues, logged)"
| "add_core_results ((check_func, result) # results) all_issues logged =
     (case result of
        Inl e \<Rightarrow>
          add_core_results results (all_issues @ [check_error_issue check_func e])
            (logged @ [core_failure_log check_func e])
      | Inr issues \<Rightarrow> add_core_results results (all_issues @ issues) logged)"

fun add_extended_results ::
  "(check_func \<times> (exn + DiagnosticIssue list)) list \<Rightarrow> DiagnosticIssue list \<Rightarrow> log_entry list \<Rightarrow>
   DiagnosticIssue list \<times> log_entry list" where
  "add_extended_results [] all_issues logged = (all_issues, logged)"
| "add_extended_results ((check_func, result) # results) all_issues logged =
     (case result of
        Inl e \<Rightarrow>
          add_extended_results results all_issues (logged @ [extended_failure_log check_func e])
      | Inr issues \<Rightarrow> add_extended_results results (all_issues @ issues) logged)"

text \<open>
  The loops \<^verbatim>\<open>for check_func in ...\<close> of the sequential branches; \<open>Inl\<close> is an exception
  the handler does not catch, with the log at that point.
\<close>

fun run_core_sequential ::
  "env \<Rightarrow> check_func list \<Rightarrow> DiagnosticIssue list \<Rightarrow> log_entry list \<Rightarrow>
   exn \<times> log_entry list + DiagnosticIssue list \<times> log_entry list" where
  "run_core_sequential env [] all_issues logged = Inr (all_issues, logged)"
| "run_core_sequential env (check_func # checks) all_issues logged =
     (case call_check env check_func of
        Inr issues \<Rightarrow> run_core_sequential env checks (all_issues @ issues) logged
      | Inl e \<Rightarrow>
          if is_Exception e then
            run_core_sequential env checks (all_issues @ [check_error_issue check_func e])
              (logged @ [core_failure_log check_func e])
          else Inl (e, logged))"

fun run_extended_sequential ::
  "env \<Rightarrow> check_func list \<Rightarrow> DiagnosticIssue list \<Rightarrow> log_entry list \<Rightarrow>
   exn \<times> log_entry list + DiagnosticIssue list \<times> log_entry list" where
  "run_extended_sequential env [] all_issues logged = Inr (all_issues, logged)"
| "run_extended_sequential env (check_func # checks) all_issues logged =
     (case call_check env check_func of
        Inr issues \<Rightarrow> run_extended_sequential env checks (all_issues @ issues) logged
      | Inl e \<Rightarrow>
          if is_Exception e then
            run_extended_sequential env checks all_issues
              (logged @ [extended_failure_log check_func e])
          else Inl (e, logged))"

text \<open>
  \<^verbatim>\<open>diagnose_env(full, parallel)\<close> in an environment. In the parallel branches
  \<open>core_order\<close> and \<open>extended_order\<close> are the completion orders of the two pools. The
  result is the list returned or the exception raised, and the log. The banner printed
  first is left out.
\<close>

definition diagnose_env ::
  "bool \<Rightarrow> bool \<Rightarrow> env \<Rightarrow> nat list \<Rightarrow> nat list \<Rightarrow> (exn + DiagnosticIssue list) \<times> log_entry list" where
  "diagnose_env full parallel env core_order extended_order =
     (case (if parallel then
              (case run_parallel_with_results (call_check env) core_checks 3 core_order of
                 Inl e \<Rightarrow> Inl (e, [])
               | Inr results \<Rightarrow> Inr (add_core_results results [] []))
            else run_core_sequential env core_checks [] []) of
        Inl (e, logged) \<Rightarrow> (Inl e, logged)
      | Inr (all_issues, logged) \<Rightarrow>
          if full then
            (if parallel then
               (case run_parallel_with_results (call_check env) extended_checks 4
                       extended_order of
                  Inl e \<Rightarrow> (Inl e, logged)
                | Inr results \<Rightarrow>
                    (case add_extended_results results all_issues logged of
                       (all_issues', logged') \<Rightarrow> (Inr all_issues', logged')))
             else
               (case run_extended_sequential env extended_checks all_issues logged of
                  Inl (e, logged') \<Rightarrow> (Inl e, logged')
                | Inr (all_issues', logged') \<Rightarrow> (Inr all_issues', logged')))
          else (Inr all_issues, logged))"

subsection \<open>Describing what \<open>diagnose_env\<close> returns\<close>

text \<open>
  What one check contributes to the list and to the log: a core check its records, or the
  record made for its failure; an extended check its records, or nothing.
\<close>

definition core_part :: "env \<Rightarrow> check_func \<Rightarrow> DiagnosticIssue list" where
  "core_part env c =
     (case call_check env c of Inr issues \<Rightarrow> issues | Inl e \<Rightarrow> [check_error_issue c e])"

definition core_log :: "env \<Rightarrow> check_func \<Rightarrow> log_entry list" where
  "core_log env c =
     (case call_check env c of Inr issues \<Rightarrow> [] | Inl e \<Rightarrow> [core_failure_log c e])"

definition extended_part :: "env \<Rightarrow> check_func \<Rightarrow> DiagnosticIssue list" where
  "extended_part env c = (case call_check env c of Inr issues \<Rightarrow> issues | Inl e \<Rightarrow> [])"

definition extended_log :: "env \<Rightarrow> check_func \<Rightarrow> log_entry list" where
  "extended_log env c =
     (case call_check env c of Inr issues \<Rightarrow> [] | Inl e \<Rightarrow> [extended_failure_log c e])"



text \<open>The requirement of the specification on a record.\<close>

definition valid_issue :: "DiagnosticIssue \<Rightarrow> bool" where
  "valid_issue r =
     (severity r \<in> {''critical'', ''warning'', ''info''} \<and>
      first_token (status r) \<in> {Some ''PASS'', Some ''FAIL'', Some ''WARN'', Some ''INFO''})"

text \<open>
  A machine without \<^verbatim>\<open>nvidia-smi\<close> and without \<^verbatim>\<open>torch\<close>, on which importing a
  library fails with an error that is no \<^verbatim>\<open>ImportError\<close>.
\<close>

definition decimal_value :: "string \<Rightarrow> exn + int" where
  "decimal_value s =
     (if s \<noteq> [] \<and> list_all is_digit s
      then Inr (foldl (\<lambda>n c. 10 * n + (int (of_char c) - 48)) 0 s)
      else Inl (ValueError (''invalid literal for int() with base 10: '' @ s)))"

definition broken_machine :: env where
  "broken_machine =
     \<lparr>platform_win32 = False,
      subprocess_run = (\<lambda>cmd. Completed 1 []),
      torch = None,
      import_module = (\<lambda>lib. Inl (OSError ''libcudart.so: cannot open shared object file'')),
      version_less = (\<lambda>v m. Inr False),
      hf_cache_free = Inr None,
      urlopen = (\<lambda>k. Inr ()),
      sleep = time_sleep,
      py_int = decimal_value,
      format_1f = (\<lambda>x. ''0.0''),
      format_2f = (\<lambda>x. ''0.00'')\<rparr>"

section \<open>Properties of the validators\<close>

subsection \<open>\<^verbatim>\<open>sanitize_command\<close>\<close>

lemma starts_with_iff: "starts_with p s \<longleftrightarrow> (\<exists>after. s = p @ after)"
  by (induction p s rule: starts_with.induct) auto

lemma py_in_iff: "py_in p s \<longleftrightarrow> has_substring s p"
proof (induction s)
  case Nil
  then show ?case by (auto simp: has_substring_def)
next
  case (Cons c cs)
  show ?case
  proof
    assume "py_in p (c # cs)"
    then consider "starts_with p (c # cs)" | "py_in p cs" by auto
    then show "has_substring (c # cs) p"
    proof cases
      case 1
      then obtain after where "c # cs = p @ after" by (auto simp: starts_with_iff)
      then have "c # cs = [] @ p @ after" by simp
      then show ?thesis unfolding has_substring_def by blast
    next
      case 2
      then obtain b a where "cs = b @ p @ a" using Cons.IH by (auto simp: has_substring_def)
      then have "c # cs = (c # b) @ p @ a" by simp
      then show ?thesis unfolding has_substring_def by blast
    qed
  next
    assume "has_substring (c # cs) p"
    then obtain b a where ba: "c # cs = b @ p @ a" by (auto simp: has_substring_def)
    show "py_in p (c # cs)"
    proof (cases b)
      case Nil
      then have "starts_with p (c # cs)" using ba by (auto simp: starts_with_iff)
      then show ?thesis by simp
    next
      case (Cons b0 bs)
      then have "cs = bs @ p @ a" using ba by simp
      then have "has_substring cs p" unfolding has_substring_def by blast
      then show ?thesis using Cons.IH by simp
    qed
  qed
qed

lemma first_dangerous_None: "first_dangerous ps arg = None \<longleftrightarrow> (\<forall>p \<in> set ps. \<not> py_in p arg)"
  by (induction ps) auto

lemma first_dangerous_Some: "first_dangerous ps arg = Some p \<Longrightarrow> p \<in> set ps \<and> py_in p arg"
  by (induction ps) (auto split: if_splits)

lemma safe_arg_simps:
  "safe_arg (PyStr s) = (first_dangerous dangerous_patterns s = None)"
  "safe_arg PyNone = False" "safe_arg (PyBool b) = False" "safe_arg (PyInt i) = False"
  "safe_arg (PyList l) = False"
  by (simp_all add: safe_arg_def)

lemma sanitize_args_Inr:
  "list_all safe_arg args \<Longrightarrow>
   \<exists>xs. sanitize_args args acc = Inr (acc @ xs) \<and> map PyStr xs = args"
proof (induction args acc rule: sanitize_args.induct)
  case (1 sanitized)
  then show ?case by simp
next
  case (2 arg rest sanitized)
  then have none: "first_dangerous dangerous_patterns arg = None" and rest: "list_all safe_arg rest"
    by (simp_all add: safe_arg_simps)
  from 2(1)[OF none rest] obtain xs where
    "sanitize_args rest (sanitized @ [arg]) = Inr ((sanitized @ [arg]) @ xs)" "map PyStr xs = rest"
    by blast
  then have "sanitize_args (PyStr arg # rest) sanitized = Inr (sanitized @ (arg # xs)) \<and>
     map PyStr (arg # xs) = PyStr arg # rest"
    using none by simp
  then show ?case by (intro exI[of _ "arg # xs"])
qed (simp_all add: safe_arg_simps)

lemma sanitize_args_Inl:
  "\<not> list_all safe_arg args \<Longrightarrow> raises_ConfigurationError (sanitize_args args acc)"
  by (induction args acc rule: sanitize_args.induct)
     (auto simp: safe_arg_simps raises_ConfigurationError_def split: option.splits)

lemma safe_arg_iff:
  "safe_arg v \<longleftrightarrow> is_str v \<and> \<not> (\<exists>arg pattern. v = PyStr arg \<and>
        pattern \<in> {'';'', ''&&'', ''||'', ''`'', ''$('', ''<'', ''>'', ''|''} \<and>
        has_substring arg pattern)"
  by (cases v) (auto simp: safe_arg_def is_str_def first_dangerous_None py_in_iff dangerous_patterns_def)

text \<open>
  Claim C8. \<open>sanitize_command\<close> raises \<open>ConfigurationError\<close> exactly when its argument is
  not a non-empty list, or holds an element that is not a string, or holds a string with one
  of the substrings \<^verbatim>\<open>;\<close>, \<^verbatim>\<open>&&\<close>, \<^verbatim>\<open>||\<close>, a backquote, \<^verbatim>\<open>$(\<close>, \<^verbatim>\<open><\<close>, \<^verbatim>\<open>>\<close>,
  \<^verbatim>\<open>|\<close>; otherwise it returns a list equal to its argument.
\<close>

theorem sanitize_command_raises_iff:
  "(raises_ConfigurationError (sanitize_command cmd) \<longleftrightarrow>
      (\<not> is_nonempty_list cmd \<or> (\<exists>v \<in> set (elements cmd). \<not> is_str v) \<or>
       has_dangerous_argument cmd)) \<and>
   (\<not> raises_ConfigurationError (sanitize_command cmd) \<longrightarrow>
      (\<exists>xs. sanitize_command cmd = Inr xs \<and> PyList (map PyStr xs) = cmd))"
proof (cases "is_nonempty_list cmd")
  case False
  then have "raises_ConfigurationError (sanitize_command cmd)"
    by (cases cmd) (auto simp: is_nonempty_list_def raises_ConfigurationError_def)
  with False show ?thesis by simp
next
  case True
  then obtain args where cmd: "cmd = PyList args" and ne: "args \<noteq> []"
    by (cases cmd) (auto simp: is_nonempty_list_def)
  have run: "sanitize_command cmd = sanitize_args args []" using cmd ne by simp
  have safe: "list_all safe_arg args \<longleftrightarrow>
      \<not> ((\<exists>v \<in> set (elements cmd). \<not> is_str v) \<or> has_dangerous_argument cmd)"
    unfolding cmd has_dangerous_argument_def elements_def list_all_iff
    by (auto simp: safe_arg_iff)
  show ?thesis
  proof (cases "list_all safe_arg args")
    case safe_args: True
    from sanitize_args_Inr[OF this, of "[]"] obtain xs where
      xs: "sanitize_args args [] = Inr xs" "map PyStr xs = args" by auto
    then have "\<not> raises_ConfigurationError (sanitize_command cmd)"
      by (simp add: run raises_ConfigurationError_def)
    moreover have "\<exists>xs. sanitize_command cmd = Inr xs \<and> PyList (map PyStr xs) = cmd"
      using xs run cmd by simp
    ultimately show ?thesis using True safe safe_args by blast
  next
    case unsafe: False
    then have "raises_ConfigurationError (sanitize_command cmd)"
      using sanitize_args_Inl[of args "[]"] run by simp
    then show ?thesis using True safe unsafe by blast
  qed
qed

theorem sanitize_command_raises_iff_witness:
  "is_nonempty_list (PyList [PyStr ''docker'', PyStr ''run'', PyStr ''--rm'']) \<and>
   \<not> (\<exists>v \<in> set (elements (PyList [PyStr ''docker'', PyStr ''run'', PyStr ''--rm''])). \<not> is_str v) \<and>
   \<not> has_dangerous_argument (PyList [PyStr ''docker'', PyStr ''run'', PyStr ''--rm'']) \<and>
   sanitize_command (PyList [PyStr ''docker'', PyStr ''run'', PyStr ''--rm'']) =
     Inr [''docker'', ''run'', ''--rm''] \<and>
   has_dangerous_argument (PyList [PyStr ''ls'', PyStr ''a;b'']) \<and>
   raises_ConfigurationError (sanitize_command (PyList [PyStr ''ls'', PyStr ''a;b'']))"
proof -
  let ?ok = "PyList [PyStr ''docker'', PyStr ''run'', PyStr ''--rm'']"
  let ?bad = "PyList [PyStr ''ls'', PyStr ''a;b'']"
  have run: "sanitize_command ?ok = Inr [''docker'', ''run'', ''--rm'']"
    by (simp add: dangerous_patterns_def)
  then have nr: "\<not> raises_ConfigurationError (sanitize_command ?ok)"
    by (simp add: raises_ConfigurationError_def)
  have 1: "is_nonempty_list ?ok" by (simp add: is_nonempty_list_def)
  have 2: "\<not> (\<exists>v \<in> set (elements ?ok). \<not> is_str v)" by (simp add: elements_def is_str_def)
  have 3: "\<not> has_dangerous_argument ?ok"
    using sanitize_command_raises_iff[of ?ok] nr by blast
  have "''a;b'' = ''a'' @ '';'' @ ''b''" by simp
  then have "has_substring ''a;b'' '';''" unfolding has_substring_def by blast
  then have 4: "has_dangerous_argument ?bad"
    unfolding has_dangerous_argument_def elements_def by auto
  then have 5: "raises_ConfigurationError (sanitize_command ?bad)"
    using sanitize_command_raises_iff[of ?bad] by blast
  show ?thesis using 1 2 3 run 4 5 by blast
qed

subsection \<open>\<^verbatim>\<open>validate_model_name\<close>\<close>

lemma dropWhile_last:
  "dropWhile P xs \<noteq> [] \<Longrightarrow> last (dropWhile P xs) = last xs"
  by (induction xs) (auto split: if_splits)

lemma py_strip_ends:
  assumes "py_strip s \<noteq> []"
  shows "\<not> py_isspace (hd (py_strip s)) \<and> \<not> py_isspace (last (py_strip s))"
proof -
  let ?u = "dropWhile py_isspace s"
  let ?v = "dropWhile py_isspace (rev ?u)"
  have t: "py_strip s = rev ?v" by (simp add: py_strip_def)
  with assms have v: "?v \<noteq> []" by simp
  have u: "?u \<noteq> []"
  proof
    assume a: "?u = []"
    have "?v = []" by (simp only: a rev.simps dropWhile.simps)
    with v show False by contradiction
  qed
  have hdv: "\<not> py_isspace (hd ?v)" using v by (rule hd_dropWhile)
  have hdu: "\<not> py_isspace (hd ?u)" using u by (rule hd_dropWhile)
  have "last ?v = last (rev ?u)" using v by (rule dropWhile_last)
  also have "\<dots> = hd ?u" using u by (simp add: last_rev)
  finally have lastv: "last ?v = hd ?u" .
  have "hd (py_strip s) = last ?v" using v t by (simp add: hd_rev)
  moreover have "last (py_strip s) = hd ?v" using v t by (simp add: last_rev)
  ultimately show ?thesis using hdv hdu lastv by simp
qed

lemma py_strip_fixed:
  assumes "t \<noteq> []" "\<not> py_isspace (hd t)" "\<not> py_isspace (last t)"
  shows "py_strip t = t"
proof -
  have 1: "dropWhile py_isspace t = t" using assms(1,2) by (cases t) auto
  have r: "rev t = last t # rev (butlast t)"
    using assms(1) by (induction t rule: rev_induct) simp_all
  have "dropWhile py_isspace (last t # rev (butlast t)) = last t # rev (butlast t)"
    using assms(3) by simp
  then have 2: "dropWhile py_isspace (rev t) = rev t" by (simp only: r [symmetric])
  show ?thesis by (simp add: py_strip_def 1 2)
qed

lemma model_name_char_not_space: "model_name_char c \<Longrightarrow> \<not> py_isspace c"
  by (auto simp: model_name_char_def py_isspace_def)

lemma lower_is_model_name_char: "lower_name_char c \<Longrightarrow> model_name_char c"
  by (auto simp: model_name_char_def lower_name_char_def)

lemma lower_name_char_lowered:
  "model_name_char c \<Longrightarrow> lower_name_char (if 65 \<le> c \<and> c \<le> 90 then c + 32 else c)"
  by (auto simp: model_name_char_def lower_name_char_def)

lemma py_lower_fixed: "list_all lower_name_char t \<Longrightarrow> py_lower t = t"
  by (induction t) (auto simp: py_lower_def lower_name_char_def)

lemma re_match_all:
  assumes "t \<noteq> []" "list_all cls t" "\<not> cls 10"
  shows "re_match_class_plus cls t"
proof -
  have "last t \<in> set t" using assms(1) by simp
  then have "cls (last t)" using assms(2) by (simp add: list_all_iff)
  then have "last t \<noteq> 10" using assms(3) by auto
  then show ?thesis using assms by (simp add: re_match_class_plus_def)
qed

lemma re_match_stripped:
  assumes "re_match_class_plus model_name_char (py_strip s)"
  shows "py_strip s \<noteq> [] \<and> list_all model_name_char (py_strip s)"
proof -
  have ne: "py_strip s \<noteq> []" using assms by (auto simp: re_match_class_plus_def Let_def split: if_splits)
  then have "\<not> py_isspace (last (py_strip s))" using py_strip_ends by blast
  then have "last (py_strip s) \<noteq> 10" by (auto simp: py_isspace_def)
  then show ?thesis using assms ne by (simp add: re_match_class_plus_def)
qed

lemma accepted_result:
  assumes "t \<noteq> []" "list_all model_name_char t"
  shows "re_match_class_plus lower_name_char (py_lower t) \<and>
         validate_model_name (PyStr (py_lower t)) = Inr (py_lower t)"
proof -
  let ?r = "py_lower t"
  have ne: "?r \<noteq> []" using assms(1) by (simp add: py_lower_def)
  have low: "list_all lower_name_char ?r"
    using assms(2) by (induction t) (simp_all add: py_lower_def lower_name_char_lowered)
  then have mod: "list_all model_name_char ?r"
    by (simp add: list_all_iff lower_is_model_name_char)
  have "hd ?r \<in> set ?r" "last ?r \<in> set ?r" using ne by simp_all
  then have "\<not> py_isspace (hd ?r)" "\<not> py_isspace (last ?r)"
    using mod by (auto simp: list_all_iff model_name_char_not_space)
  then have strip: "py_strip ?r = ?r" using ne by (simp add: py_strip_fixed)
  have m1: "re_match_class_plus lower_name_char ?r"
    using ne low by (rule re_match_all) (simp add: lower_name_char_def)
  have m2: "re_match_class_plus model_name_char ?r"
    using ne mod by (rule re_match_all) (simp add: model_name_char_def)
  have "validate_model_name (PyStr ?r) = Inr (py_lower ?r)"
    using ne m2 by (simp add: strip)
  then show ?thesis using m1 low by (simp add: py_lower_fixed)
qed

text \<open>
  Claim C9. \<open>validate_model_name\<close> accepts a string exactly when it is non-empty and, once
  stripped, matches \<^verbatim>\<open>^[a-zA-Z0-9._-]+$\<close>; the result is then the stripped string in lower
  case, it matches \<^verbatim>\<open>^[a-z0-9._-]+$\<close>, and validating the result again returns it
  unchanged (idempotence).
\<close>

theorem validate_model_name_accepted:
  "(validate_model_name (PyStr s) = Inr r \<longleftrightarrow>
      s \<noteq> [] \<and> re_match_class_plus model_name_char (py_strip s) \<and> r = py_lower (py_strip s)) \<and>
   (validate_model_name (PyStr s) = Inr r \<longrightarrow>
      re_match_class_plus lower_name_char r \<and> validate_model_name (PyStr r) = Inr r)"
proof -
  have iff: "validate_model_name (PyStr s) = Inr r \<longleftrightarrow>
      s \<noteq> [] \<and> re_match_class_plus model_name_char (py_strip s) \<and> r = py_lower (py_strip s)"
    by (auto simp: Let_def)
  have "re_match_class_plus lower_name_char r \<and> validate_model_name (PyStr r) = Inr r"
    if "validate_model_name (PyStr s) = Inr r"
  proof -
    from that iff have m: "re_match_class_plus model_name_char (py_strip s)"
      and r: "r = py_lower (py_strip s)" by simp_all
    from re_match_stripped[OF m] accepted_result show ?thesis unfolding r by blast
  qed
  with iff show ?thesis by blast
qed

theorem validate_model_name_accepted_witness:
  "validate_model_name (PyStr (py '' GPT2'')) = Inr (py ''gpt2'') \<and>
   re_match_class_plus lower_name_char (py ''gpt2'') \<and>
   validate_model_name (PyStr (py ''gpt2'')) = Inr (py ''gpt2'')"
proof -
  have run: "validate_model_name (PyStr (py '' GPT2'')) = Inr (py ''gpt2'')"
    by (simp add: py_def py_strip_def py_isspace_def re_match_class_plus_def
        model_name_char_def py_lower_def)
  with validate_model_name_accepted[of "py '' GPT2''" "py ''gpt2''"] show ?thesis by blast
qed

section \<open>Properties of the retry decorator\<close>

text \<open>The loop's equation is unfolded one step at a time.\<close>

declare retry_loop.simps [simp del]





lemma delays_Suc_last:
  "delays d backoff (Suc n) = delays d backoff n @ [last (delays d backoff (Suc n))]"
proof (induction n arbitrary: d)
  case 0
  show ?case by simp
next
  case (Suc n)
  have "delays d backoff (Suc (Suc n)) = d # delays (fmul d backoff) backoff (Suc n)" by simp
  also have "\<dots> = d # (delays (fmul d backoff) backoff n @
                      [last (delays (fmul d backoff) backoff (Suc n))])"
    using Suc.IH[of "fmul d backoff"] by simp
  finally show ?case by simp
qed








section \<open>Properties of the parallel runners\<close>

lemma gather_pairs_all:
  assumes "\<forall>i \<in> set order. i < length items_list"
    and "raises_only_Exception func items_list"
  shows "gather_pairs func items_list order results =
           Inr (results @ map (\<lambda>i. pair_of func (items_list ! i)) order)"
  using assms(1)
proof (induction order arbitrary: results)
  case Nil
  then show ?case by simp
next
  case (Cons i order)
  then have "items_list ! i \<in> set items_list" by simp
  then have "case func (items_list ! i) of Inl e \<Rightarrow> is_Exception e | Inr v \<Rightarrow> True"
    using assms(2) by (simp add: raises_only_Exception_def list_all_iff)
  then show ?case using Cons by (auto simp: pair_of_def split: sum.splits)
qed

lemma all_completed_bounds:
  assumes "all_completed n order"
  shows "\<forall>i \<in> set order. i < n"
proof -
  from assms have "set_mset (mset order) = set_mset (mset [0..<n])"
    by (simp only: all_completed_def)
  then have "set order = {0..<n}" by simp
  then show ?thesis by simp
qed

lemma all_completed_image:
  assumes "all_completed (length xs) order"
  shows "mset (map (\<lambda>i. f (xs ! i)) order) = mset (map f xs)"
proof -
  have "mset (map (\<lambda>i. f (xs ! i)) order) = image_mset (\<lambda>i. f (xs ! i)) (mset order)" by simp
  also have "\<dots> = image_mset (\<lambda>i. f (xs ! i)) (mset [0..<length xs])"
    using assms by (simp only: all_completed_def)
  also have "\<dots> = mset (map (\<lambda>i. f (xs ! i)) [0..<length xs])" by simp
  also have "map (\<lambda>i. f (xs ! i)) [0..<length xs] = map f xs"
    by (simp add: map_equality_iff)
  finally show ?thesis .
qed

lemma gather_pairs_raises:
  assumes "\<exists>i \<in> set order. \<exists>e. func (items_list ! i) = Inl e \<and> \<not> is_Exception e"
  shows "\<exists>i \<in> set order. \<exists>e. func (items_list ! i) = Inl e \<and> \<not> is_Exception e \<and>
           gather_pairs func items_list order results = Inl e"
  using assms
proof (induction order arbitrary: results)
  case Nil
  then show ?case by simp
next
  case (Cons i order)
  show ?case
  proof (cases "\<exists>e. func (items_list ! i) = Inl e \<and> \<not> is_Exception e")
    case True
    then obtain e where "func (items_list ! i) = Inl e" "\<not> is_Exception e" by blast
    then have "func (items_list ! i) = Inl e \<and> \<not> is_Exception e \<and>
               gather_pairs func items_list (i # order) results = Inl e"
      by simp
    then show ?thesis by (intro bexI[of _ i] exI[of _ e]) simp_all
  next
    case False
    with Cons.prems
    have rest: "\<exists>j \<in> set order. \<exists>e. func (items_list ! j) = Inl e \<and> \<not> is_Exception e"
      by auto
    obtain results' where step:
      "gather_pairs func items_list (i # order) results =
         gather_pairs func items_list order results'"
      using False by (cases "func (items_list ! i)") auto
    from Cons.IH[OF rest, of results'] obtain j e where
      "j \<in> set order" "func (items_list ! j) = Inl e" "\<not> is_Exception e"
      "gather_pairs func items_list order results' = Inl e"
      by blast
    then have "func (items_list ! j) = Inl e \<and> \<not> is_Exception e \<and>
               gather_pairs func items_list (i # order) results = Inl e"
      using step by simp
    moreover have "j \<in> set (i # order)" using \<open>j \<in> set order\<close> by simp
    ultimately show ?thesis by blast
  qed
qed

text \<open>
  Claim C2 (amended). An empty list gives the empty list, whatever \<open>max_workers\<close> is. For
  a non-empty list, a pool that cannot be created (\<open>max_workers \<le> 0\<close>) makes the function
  raise \<^verbatim>\<open>ValueError\<close>. When the pool can be created and the timeout cuts nothing off:
  if the calls raise nothing but instances of \<^verbatim>\<open>Exception\<close>, the function returns (it
  raises nothing) exactly one pair per input item, in completion order, the item with
  the value its call returned or with the exception its call raised; if some call raises
  an exception that is no instance of \<^verbatim>\<open>Exception\<close>, the function returns no list and
  raises such an exception, raised by the call on one of the items.
\<close>

theorem run_parallel_with_results_outcome:
  "(items_list = [] \<longrightarrow>
      run_parallel_with_results func items_list max_workers order = Inr []) \<and>
   (items_list \<noteq> [] \<and> max_workers \<le> 0 \<longrightarrow>
      run_parallel_with_results func items_list max_workers order = Inl executor_error) \<and>
   (0 < max_workers \<and> all_completed (length items_list) order \<and>
    raises_only_Exception func items_list \<longrightarrow>
      run_parallel_with_results func items_list max_workers order =
        Inr (map (\<lambda>i. pair_of func (items_list ! i)) order) \<and>
      mset (map (\<lambda>i. pair_of func (items_list ! i)) order) =
        mset (map (pair_of func) items_list) \<and>
      length (map (\<lambda>i. pair_of func (items_list ! i)) order) = length items_list) \<and>
   (0 < max_workers \<and> all_completed (length items_list) order \<and>
    \<not> raises_only_Exception func items_list \<longrightarrow>
      (\<exists>item \<in> set items_list. \<exists>e. func item = Inl e \<and> \<not> is_Exception e \<and>
         run_parallel_with_results func items_list max_workers order = Inl e))"
proof (intro conjI impI)
  assume "items_list = []"
  then show "run_parallel_with_results func items_list max_workers order = Inr []"
    by (simp add: run_parallel_with_results_def)
next
  assume "items_list \<noteq> [] \<and> max_workers \<le> 0"
  then show "run_parallel_with_results func items_list max_workers order = Inl executor_error"
    by (simp add: run_parallel_with_results_def)
next
  assume h: "0 < max_workers \<and> all_completed (length items_list) order \<and>
    raises_only_Exception func items_list"
  let ?results = "map (\<lambda>i. pair_of func (items_list ! i)) order"
  show "run_parallel_with_results func items_list max_workers order = Inr ?results"
  proof (cases "items_list = []")
    case True
    with h have "order = []" by (simp add: all_completed_def)
    with True show ?thesis by (simp add: run_parallel_with_results_def)
  next
    case False
    have "\<forall>i \<in> set order. i < length items_list"
      using h by (intro all_completed_bounds) simp
    then have "gather_pairs func items_list order [] = Inr ([] @ ?results)"
      using h by (intro gather_pairs_all) simp_all
    then show ?thesis using False h by (simp add: run_parallel_with_results_def)
  qed
  show m: "mset ?results = mset (map (pair_of func) items_list)"
    using h by (intro all_completed_image) simp
  have "size (mset ?results) = size (mset (map (pair_of func) items_list))"
    by (simp only: m)
  then show "length ?results = length items_list" by simp
next
  assume h: "0 < max_workers \<and> all_completed (length items_list) order \<and>
    \<not> raises_only_Exception func items_list"
  then obtain item where item: "item \<in> set items_list"
    "\<not> (case func item of Inl e \<Rightarrow> is_Exception e | Inr v \<Rightarrow> True)"
    by (auto simp: raises_only_Exception_def list_all_iff)
  then obtain e0 where e0: "func item = Inl e0" "\<not> is_Exception e0"
    by (cases "func item") simp_all
  from item(1) have ne: "items_list \<noteq> []" by auto
  from item(1) obtain i where i: "i < length items_list" "items_list ! i = item"
    by (auto simp: in_set_conv_nth)
  have "set_mset (mset order) = set_mset (mset [0..<length items_list])"
    using h by (simp only: all_completed_def)
  then have so: "set order = {0..<length items_list}" by simp
  then have "i \<in> set order" using i(1) by simp
  then have "\<exists>i \<in> set order. \<exists>e. func (items_list ! i) = Inl e \<and> \<not> is_Exception e"
    using i(2) e0 by blast
  from gather_pairs_raises[OF this, of "[]"] obtain j e where j:
    "j \<in> set order" "func (items_list ! j) = Inl e" "\<not> is_Exception e"
    "gather_pairs func items_list order [] = Inl e"
    by blast
  have "items_list ! j \<in> set items_list" using j(1) so by simp
  moreover have "run_parallel_with_results func items_list max_workers order = Inl e"
    using ne h j(4) by (simp add: run_parallel_with_results_def)
  ultimately show "\<exists>item \<in> set items_list. \<exists>e. func item = Inl e \<and> \<not> is_Exception e \<and>
         run_parallel_with_results func items_list max_workers order = Inl e"
    using j(2,3) by blast
qed

theorem run_parallel_with_results_outcome_witness:
  "all_completed (length [1::nat, 2, 3]) [1, 0, 2] \<and>
   raises_only_Exception
     (\<lambda>x::nat. if x = 2 then Inl (ValueError ''bad'') else (Inr (10 * x) :: exn + nat))
     [1, 2, 3] \<and>
   run_parallel_with_results
     (\<lambda>x::nat. if x = 2 then Inl (ValueError ''bad'') else (Inr (10 * x) :: exn + nat))
     [1, 2, 3] 4 [1, 0, 2] =
   Inr [(2, Inl (ValueError ''bad'')), (1, Inr 10), (3, Inr 30)] \<and>
   run_parallel_with_results
     (\<lambda>x::nat. if x = 2 then Inl (ValueError ''bad'') else (Inr (10 * x) :: exn + nat))
     [1, 2, 3] 0 [1, 0, 2] =
   Inl (ValueError ''max_workers must be greater than 0'')"
proof -
  let ?func = "\<lambda>x::nat. if x = 2 then Inl (ValueError ''bad'') else (Inr (10 * x) :: exn + nat)"
  have "[0..<3] = [0, 1, 2]" by (simp add: upt_conv_Cons)
  then have c: "all_completed (length [1::nat, 2, 3]) [1, 0, 2]"
    by (simp add: all_completed_def)
  have r: "raises_only_Exception ?func [1, 2, 3]"
    by (simp add: raises_only_Exception_def)
  have "(0::int) < 4 \<and> all_completed (length [1::nat, 2, 3]) [1, 0, 2] \<and>
        raises_only_Exception ?func [1, 2, 3]"
    using c r by simp
  with run_parallel_with_results_outcome[of "[1, 2, 3]" ?func 4 "[1, 0, 2]"]
  have pairs: "run_parallel_with_results ?func [1, 2, 3] 4 [1, 0, 2] =
          Inr (map (\<lambda>i. pair_of ?func ([1, 2, 3] ! i)) [1, 0, 2])"
    by blast
  have "[1::nat, 2, 3] \<noteq> [] \<and> (0::int) \<le> 0" by simp
  with run_parallel_with_results_outcome[of "[1, 2, 3]" ?func 0 "[1, 0, 2]"]
  have none: "run_parallel_with_results ?func [1, 2, 3] 0 [1, 0, 2] = Inl executor_error"
    by blast
  show ?thesis using c r pairs none by (simp add: pair_of_def executor_error_def)
qed

text \<open>
  The claim as worded fails on two inputs. \<^verbatim>\<open>except Exception\<close> does not catch a
  \<^verbatim>\<open>BaseException\<close> that is no \<^verbatim>\<open>Exception\<close>: with the items \<open>[1, 2]\<close>, every future
  completed, and a call on \<open>2\<close> that raises \<^verbatim>\<open>KeyboardInterrupt\<close>, no pair is produced
  for either item and the exception is propagated. With \<open>max_workers = 0\<close> the pool is not
  created and \<^verbatim>\<open>ValueError\<close> is propagated, though no call raises.
\<close>

theorem run_parallel_with_results_propagates:
  "run_parallel_with_results
     (\<lambda>x::nat. if x = 2 then Inl (NonException ''KeyboardInterrupt'') else (Inr x :: exn + nat))
     [1, 2] 4 [0, 1] = Inl (NonException ''KeyboardInterrupt'') \<and>
   all_completed (length [1::nat, 2]) [0, 1] \<and>
   run_parallel_with_results (\<lambda>x::nat. Inr x :: exn + nat) [1, 2] 0 [0, 1] =
     Inl (ValueError ''max_workers must be greater than 0'')"
proof -
  have "[0..<2] = [0, 1]" by (simp add: upt_conv_Cons)
  then have "all_completed (length [1::nat, 2]) [0, 1]" by (simp add: all_completed_def)
  then show ?thesis by (simp add: run_parallel_with_results_def executor_error_def)
qed

subsection \<open>\<^verbatim>\<open>run_parallel\<close>\<close>

lemma gather_all:
  assumes "\<forall>i \<in> set order. i < length items_list"
    and "\<forall>item \<in> set items_list. func item = Inr (g item)"
  shows "gather func items_list order results completed =
           Inr (results @ map (\<lambda>i. g (items_list ! i)) order, completed + length order)"
  using assms(1)
proof (induction order arbitrary: results completed)
  case Nil
  then show ?case by simp
next
  case (Cons i order)
  then have "items_list ! i \<in> set items_list" by simp
  then have "func (items_list ! i) = Inr (g (items_list ! i))" using assms(2) by blast
  then show ?case using Cons by simp
qed

text \<open>
  What \<open>run_parallel\<close> returns when every call returns: the values in completion order, a
  permutation of the values in input order.
\<close>

lemma run_parallel_completion_order:
  assumes "0 < max_workers"
    and "all_completed (length items_list) order"
    and "\<forall>item \<in> set items_list. func item = Inr (g item)"
  shows "run_parallel func items_list max_workers order =
           Inr (map (\<lambda>i. g (items_list ! i)) order)"
    and "mset (map (\<lambda>i. g (items_list ! i)) order) = mset (map g items_list)"
proof -
  show "mset (map (\<lambda>i. g (items_list ! i)) order) = mset (map g items_list)"
    using assms(2) by (rule all_completed_image)
  show "run_parallel func items_list max_workers order =
           Inr (map (\<lambda>i. g (items_list ! i)) order)"
  proof (cases "items_list = []")
    case True
    with assms(2) have "order = []" by (simp add: all_completed_def)
    with True show ?thesis by (simp add: run_parallel_def)
  next
    case False
    have "size (mset order) = size (mset [0..<length items_list])"
      using assms(2) by (simp only: all_completed_def)
    then have len: "length order = length items_list" by simp
    have "gather func items_list order [] 0 =
            Inr ([] @ map (\<lambda>i. g (items_list ! i)) order, 0 + length order)"
      using all_completed_bounds[OF assms(2)] assms(3) by (rule gather_all)
    then show ?thesis using False assms(1,2) len by (simp add: run_parallel_def)
  qed
qed

text \<open>
  Claim C1 (the order of the results). The docstring of \<open>run_parallel\<close> promises the
  results in the order of the input items; the loop appends them in the order the futures
  complete. With the items \<open>[1, 2]\<close>, a function that returns ten times its argument, and
  the second future completing first, the result is \<open>[20, 10]\<close>, while the values in input
  order are \<open>[10, 20]\<close>.
\<close>

theorem run_parallel_not_input_order:
  "run_parallel (\<lambda>x::nat. Inr (10 * x) :: exn + nat) [1, 2] 4 [1, 0] = Inr [20, 10] \<and>
   map (\<lambda>x::nat. 10 * x) [1, 2] = [10, 20] \<and>
   all_completed (length [1::nat, 2]) [1, 0]"
proof -
  have "[0..<2] = [0, 1]" by (simp add: upt_conv_Cons)
  then have "all_completed (length [1::nat, 2]) [1, 0]" by (simp add: all_completed_def)
  then show ?thesis by (simp add: run_parallel_def)
qed

section \<open>Properties of the exports and of the printed table\<close>













section \<open>Properties of the probes\<close>

text \<open>The first token of a status that starts with a category and a space.\<close>

lemma is_space_simps:
  "is_space CHR '' ''" "\<not> is_space CHR ''P''" "\<not> is_space CHR ''A''" "\<not> is_space CHR ''S''"
  "\<not> is_space CHR ''F''" "\<not> is_space CHR ''I''" "\<not> is_space CHR ''L''"
  "\<not> is_space CHR ''W''" "\<not> is_space CHR ''R''" "\<not> is_space CHR ''N''" "\<not> is_space CHR ''O''"
  by (simp_all add: is_space_def)

lemma first_token_PASS:
  "first_token (CHR ''P'' # CHR ''A'' # CHR ''S'' # CHR ''S'' # CHR '' '' # rest) = Some ''PASS''"
  by (simp add: first_token_def is_space_simps)

lemma first_token_FAIL:
  "first_token (CHR ''F'' # CHR ''A'' # CHR ''I'' # CHR ''L'' # CHR '' '' # rest) = Some ''FAIL''"
  by (simp add: first_token_def is_space_simps)

lemma first_token_WARN:
  "first_token (CHR ''W'' # CHR ''A'' # CHR ''R'' # CHR ''N'' # CHR '' '' # rest) = Some ''WARN''"
  by (simp add: first_token_def is_space_simps)

lemma first_token_INFO:
  "first_token (CHR ''I'' # CHR ''N'' # CHR ''F'' # CHR ''O'' # CHR '' '' # rest) = Some ''INFO''"
  by (simp add: first_token_def is_space_simps)

lemmas first_token_category = first_token_PASS first_token_FAIL first_token_WARN first_token_INFO

lemma valid_issue_simps:
  "valid_issue \<lparr>name = n, status = s, severity = ''critical'', fix = f, details = d\<rparr> \<longleftrightarrow>
     first_token s \<in> {Some ''PASS'', Some ''FAIL'', Some ''WARN'', Some ''INFO''}"
  "valid_issue \<lparr>name = n, status = s, severity = ''warning'', fix = f, details = d\<rparr> \<longleftrightarrow>
     first_token s \<in> {Some ''PASS'', Some ''FAIL'', Some ''WARN'', Some ''INFO''}"
  "valid_issue \<lparr>name = n, status = s, severity = ''info'', fix = f, details = d\<rparr> \<longleftrightarrow>
     first_token s \<in> {Some ''PASS'', Some ''FAIL'', Some ''WARN'', Some ''INFO''}"
  by (simp_all add: valid_issue_def)

lemma check_cuda_driver_valid:
  "check_cuda_driver env = Inr issues \<Longrightarrow> list_all valid_issue issues"
  by (auto simp: check_cuda_driver_def valid_issue_simps first_token_category Let_def
      split: sum.splits bool.splits if_splits prod.splits)

lemma pytorch_cuda_try_valid:
  "pytorch_cuda_try env t = (issues, outcome) \<Longrightarrow> list_all valid_issue issues"
  by (auto simp: pytorch_cuda_try_def valid_issue_simps first_token_category Let_def
      split: sum.splits bool.splits if_splits prod.splits)

lemma check_pytorch_cuda_valid:
  "check_pytorch_cuda env = Inr issues \<Longrightarrow> list_all valid_issue issues"
  by (auto simp: check_pytorch_cuda_def valid_issue_simps first_token_category
      dest: pytorch_cuda_try_valid
      split: option.splits sum.splits if_splits prod.splits)

lemma check_library_valid:
  "check_library env lib_name version_req = Inr issue \<Longrightarrow> valid_issue issue"
  by (auto simp: check_library_def valid_issue_simps first_token_category Let_def
      split: sum.splits bool.splits if_splits)

lemma check_libraries_valid:
  "check_libraries env libs acc = Inr issues \<Longrightarrow> list_all valid_issue acc \<Longrightarrow>
   list_all valid_issue issues"
  by (induction env libs acc rule: check_libraries.induct)
     (auto split: sum.splits dest: check_library_valid)

lemma check_ml_libraries_valid:
  "check_ml_libraries env = Inr issues \<Longrightarrow> list_all valid_issue issues"
  unfolding check_ml_libraries_def by (erule check_libraries_valid) simp

lemma check_gpu_memory_valid:
  "check_gpu_memory env = Inr issues \<Longrightarrow> list_all valid_issue issues"
  by (auto simp: check_gpu_memory_def valid_issue_simps first_token_category Let_def
      split: option.splits sum.splits bool.splits if_splits prod.splits)

lemma check_disk_space_valid:
  "check_disk_space env = Inr issues \<Longrightarrow> list_all valid_issue issues"
  by (auto simp: check_disk_space_def valid_issue_simps first_token_category Let_def
      split: option.splits sum.splits if_splits)

lemma check_docker_gpu_valid:
  "check_docker_gpu env = Inr issues \<Longrightarrow> list_all valid_issue issues"
  by (auto simp: check_docker_gpu_def valid_issue_simps first_token_category
      split: sum.splits bool.splits if_splits prod.splits)

lemma check_internet_connectivity_valid:
  "check_internet_connectivity env = Inr issues \<Longrightarrow> list_all valid_issue issues"
  by (auto simp: check_internet_connectivity_def valid_issue_simps first_token_category
      split: sum.splits if_splits)

text \<open>
  Claim C4. Every record returned by one of the seven probes has a severity that is one of
  \<^verbatim>\<open>critical\<close>, \<^verbatim>\<open>warning\<close>, \<^verbatim>\<open>info\<close>, and a status whose first
  whitespace-separated token is one of \<^verbatim>\<open>PASS\<close>, \<^verbatim>\<open>FAIL\<close>, \<^verbatim>\<open>WARN\<close>, \<^verbatim>\<open>INFO\<close>,
  whatever the environment answers.
\<close>

theorem probe_records_valid:
  "(check_cuda_driver env = Inr issues \<longrightarrow> list_all valid_issue issues) \<and>
   (check_pytorch_cuda env = Inr issues \<longrightarrow> list_all valid_issue issues) \<and>
   (check_ml_libraries env = Inr issues \<longrightarrow> list_all valid_issue issues) \<and>
   (check_gpu_memory env = Inr issues \<longrightarrow> list_all valid_issue issues) \<and>
   (check_disk_space env = Inr issues \<longrightarrow> list_all valid_issue issues) \<and>
   (check_docker_gpu env = Inr issues \<longrightarrow> list_all valid_issue issues) \<and>
   (check_internet_connectivity env = Inr issues \<longrightarrow> list_all valid_issue issues)"
  using check_cuda_driver_valid check_pytorch_cuda_valid check_ml_libraries_valid
    check_gpu_memory_valid check_disk_space_valid check_docker_gpu_valid
    check_internet_connectivity_valid
  by blast

theorem probe_records_valid_witness:
  "check_cuda_driver broken_machine =
     Inr [\<lparr>name = ''NVIDIA GPU Driver'', status = ''FAIL - nvidia-smi not found'',
            severity = ''critical'',
            fix = ''Install NVIDIA drivers: https://www.nvidia.com/Download/index.aspx'',
            details = None\<rparr>] \<and>
   valid_issue \<lparr>name = ''NVIDIA GPU Driver'', status = ''FAIL - nvidia-smi not found'',
            severity = ''critical'',
            fix = ''Install NVIDIA drivers: https://www.nvidia.com/Download/index.aspx'',
            details = None\<rparr> \<and>
   check_disk_space broken_machine =
     Inr [\<lparr>name = ''Disk Space'', status = ''INFO - Cache dir not found'',
            severity = ''info'', fix = [], details = None\<rparr>] \<and>
   valid_issue \<lparr>name = ''Disk Space'', status = ''INFO - Cache dir not found'',
            severity = ''info'', fix = [], details = None\<rparr>"
proof -
  have a: "check_cuda_driver broken_machine =
     Inr [\<lparr>name = ''NVIDIA GPU Driver'', status = ''FAIL - nvidia-smi not found'',
            severity = ''critical'',
            fix = ''Install NVIDIA drivers: https://www.nvidia.com/Download/index.aspx'',
            details = None\<rparr>]"
    by code_simp
  have b: "check_disk_space broken_machine =
     Inr [\<lparr>name = ''Disk Space'', status = ''INFO - Cache dir not found'',
            severity = ''info'', fix = [], details = None\<rparr>]"
    by code_simp
  from probe_records_valid[of broken_machine
      "[\<lparr>name = ''NVIDIA GPU Driver'', status = ''FAIL - nvidia-smi not found'',
            severity = ''critical'',
            fix = ''Install NVIDIA drivers: https://www.nvidia.com/Download/index.aspx'',
            details = None\<rparr>]"] a
  have va: "valid_issue \<lparr>name = ''NVIDIA GPU Driver'', status = ''FAIL - nvidia-smi not found'',
            severity = ''critical'',
            fix = ''Install NVIDIA drivers: https://www.nvidia.com/Download/index.aspx'',
            details = None\<rparr>"
    by simp
  from probe_records_valid[of broken_machine
      "[\<lparr>name = ''Disk Space'', status = ''INFO - Cache dir not found'',
            severity = ''info'', fix = [], details = None\<rparr>]"] b
  have vb: "valid_issue \<lparr>name = ''Disk Space'', status = ''INFO - Cache dir not found'',
            severity = ''info'', fix = [], details = None\<rparr>"
    by simp
  from a b va vb show ?thesis by simp
qed

section \<open>Properties of \<open>diagnose_env\<close>\<close>



lemma run_core_sequential_all:
  "raises_only_Exception (call_check env) cs \<Longrightarrow>
   run_core_sequential env cs all_issues logged =
     Inr (all_issues @ concat (map (core_part env) cs), logged @ concat (map (core_log env) cs))"
  by (induction cs arbitrary: all_issues logged)
     (auto simp: raises_only_Exception_def core_part_def core_log_def split: sum.splits)

lemma run_extended_sequential_all:
  "raises_only_Exception (call_check env) cs \<Longrightarrow>
   run_extended_sequential env cs all_issues logged =
     Inr (all_issues @ concat (map (extended_part env) cs),
          logged @ concat (map (extended_log env) cs))"
  by (induction cs arbitrary: all_issues logged)
     (auto simp: raises_only_Exception_def extended_part_def extended_log_def split: sum.splits)

lemma raises_only_Exception_append:
  "raises_only_Exception f (xs @ ys) \<longleftrightarrow> raises_only_Exception f xs \<and> raises_only_Exception f ys"
  by (simp add: raises_only_Exception_def)





text \<open>
  Whatever the pools' timeouts cut off, the only exception that leaves \<open>diagnose_env\<close> is
  the \<^verbatim>\<open>TimeoutError\<close> of \<^verbatim>\<open>as_completed\<close>, as long as the probes raise nothing but
  instances of \<^verbatim>\<open>Exception\<close>.
\<close>

lemma diagnose_env_raises_only_timeout:
  assumes ok: "raises_only_Exception (call_check env) (core_checks @ extended_checks)"
    and co: "\<forall>i \<in> set core_order. i < length core_checks"
    and eo: "\<forall>i \<in> set extended_order. i < length extended_checks"
    and raised: "fst (diagnose_env full parallel env core_order extended_order) = Inl e"
  shows "e = TimeoutError"
proof -
  from ok have rc: "raises_only_Exception (call_check env) core_checks"
    and re: "raises_only_Exception (call_check env) extended_checks"
    by (simp_all add: raises_only_Exception_append)
  have ne: "executor_error \<noteq> TimeoutError" by (simp add: executor_error_def)
  have w: "core_checks \<noteq> []" "extended_checks \<noteq> []"
    by (simp_all add: core_checks_def extended_checks_def)
  have pc: "run_parallel_with_results (call_check env) core_checks 3 core_order = Inl TimeoutError \<or>
         (\<exists>results. run_parallel_with_results (call_check env) core_checks 3 core_order = Inr results)"
    using gather_pairs_all[OF co rc, of "[]"] w by (simp add: run_parallel_with_results_def)
  have pe: "run_parallel_with_results (call_check env) extended_checks 4 extended_order = Inl TimeoutError \<or>
         (\<exists>results. run_parallel_with_results (call_check env) extended_checks 4 extended_order = Inr results)"
    using gather_pairs_all[OF eo re, of "[]"] w by (simp add: run_parallel_with_results_def)
  show ?thesis
  proof (cases parallel)
    case False
    then show ?thesis using raised
      by (simp add: diagnose_env_def run_core_sequential_all[OF rc]
          run_extended_sequential_all[OF re] split: if_splits)
  next
    case True
    then show ?thesis using raised pc pe
      by (auto simp: diagnose_env_def split: if_splits sum.splits prod.splits)
  qed
qed

end
